theory Spec2Isabelle
  imports Complex_Main
begin

section \<open>Values of the program\<close>

text \<open>
  The service (\<^verbatim>\<open>main.py\<close>) handles values that come out of JSON documents: the bodies of
  the upstream replies (\<^verbatim>\<open>r.json()\<close>), the request payload of \<^verbatim>\<open>/publish\<close>
  (\<^verbatim>\<open>Dict[str, Any]\<close>) and the entries of the \<^verbatim>\<open>TOKENS\<close> dictionary. They are
  modelled by one datatype; Python's \<^verbatim>\<open>None\<close> is \<open>JNull\<close>. A dictionary is an
  association list read with \<open>map_of\<close>. Floats are carried as rationals: the program only
  tests them for truth.
\<close>

datatype json =
    JNull
  | JBool bool
  | JInt int
  | JFloat rat
  | JStr string
  | JArr "json list"
  | JObj "(string \<times> json) list"

text \<open>Python's truth value of an object (\<^verbatim>\<open>bool(x)\<close>, \<^verbatim>\<open>if x\<close>, \<^verbatim>\<open>not x\<close>).\<close>

fun truthy :: "json \<Rightarrow> bool" where
  "truthy JNull = False"
| "truthy (JBool b) = b"
| "truthy (JInt n) = (n \<noteq> 0)"
| "truthy (JFloat r) = (r \<noteq> 0)"
| "truthy (JStr s) = (s \<noteq> [])"
| "truthy (JArr xs) = (xs \<noteq> [])"
| "truthy (JObj kvs) = (kvs \<noteq> [])"

text \<open>\<^verbatim>\<open>a or b\<close>: the first operand when it is true, the second otherwise.\<close>

definition py_or :: "json \<Rightarrow> json \<Rightarrow> json" where
  "py_or a b = (if truthy a then a else b)"

subsection \<open>Errors\<close>

text \<open>
  Every \<^verbatim>\<open>raise HTTPException(status_code=..., detail=...)\<close> of the source is one
  constructor of \<open>detail\<close>, carried with its status code. An exception that no handler
  catches (\<^verbatim>\<open>AttributeError\<close> of \<^verbatim>\<open>.get\<close>, \<^verbatim>\<open>.upper\<close> or \<^verbatim>\<open>.strip\<close> on
  an object that lacks the attribute, \<^verbatim>\<open>TypeError\<close> of iterating a number, \<^verbatim>\<open>ValueError\<close> of a
  negative sleep, an exception of \<^verbatim>\<open>requests.request\<close>) is \<open>Unhandled\<close>; the framework
  answers it with status 500.
\<close>

datatype exn = AttributeError | TypeError | ValueError | RequestException

text \<open>
  The upstream URLs are \<^verbatim>\<open>f"{GRAPH}/..."\<close> strings; the model keeps the path and the
  interpolated value apart instead of formatting it.
\<close>

datatype endpoint =
    OAuthAccessToken
  | MeAccounts
  | Media json
  | Container json
  | MediaPublish json

datatype detail =
    MissingEnv "string list"
  | UpstreamFailed endpoint json
  | NoAccessToken json
  | NoPages
  | NoValidPage
  | NoContainerId json
  | ProcessingFailed json
  | ProcessingTimeout
  | NoMediaId json
  | CallbackWithoutCode
  | InvalidState
  | NoTokens
  | InvalidMediaType
  | InvalidVideoUrl

datatype error = HTTPException nat detail | Unhandled exn

fun error_status :: "error \<Rightarrow> nat" where
  "error_status (HTTPException c d) = c"
| "error_status (Unhandled x) = 500"

subsection \<open>Dictionary access and iteration\<close>

text \<open>
  \<^verbatim>\<open>x.get(k, default)\<close>: only a dictionary has it; on every other object the
  attribute lookup raises \<^verbatim>\<open>AttributeError\<close>.
\<close>

definition dict_get :: "(string \<times> json) list \<Rightarrow> string \<Rightarrow> json \<Rightarrow> json" where
  "dict_get kvs k d = (case map_of kvs k of None \<Rightarrow> d | Some v \<Rightarrow> v)"

fun py_get_default :: "json \<Rightarrow> string \<Rightarrow> json \<Rightarrow> error + json" where
  "py_get_default (JObj kvs) k d = Inr (dict_get kvs k d)"
| "py_get_default j k d = Inl (Unhandled AttributeError)"

definition py_get :: "json \<Rightarrow> string \<Rightarrow> error + json" where
  "py_get j k = py_get_default j k JNull"

text \<open>
  \<^verbatim>\<open>for p in x\<close>: a list yields its elements, a dictionary its keys, a string its
  characters; the other objects are not iterable.
\<close>

fun py_iter :: "json \<Rightarrow> error + json list" where
  "py_iter (JArr xs) = Inr xs"
| "py_iter (JObj kvs) = Inr (map (\<lambda>kv. JStr (fst kv)) kvs)"
| "py_iter (JStr s) = Inr (map (\<lambda>c. JStr [c]) s)"
| "py_iter j = Inl (Unhandled TypeError)"

subsection \<open>Strings\<close>

text \<open>
  Strings are lists of 8-bit characters. \<^verbatim>\<open>str.strip()\<close> removes the characters for
  which \<^verbatim>\<open>str.isspace\<close> holds from both ends; in this range they are the ones below.
  \<^verbatim>\<open>str.upper()\<close> is modelled on the ASCII letters and leaves every other character
  as it is.
\<close>

definition py_whitespace :: "char list" where
  "py_whitespace = [CHR 0x09, CHR 0x0A, CHR 0x0B, CHR 0x0C, CHR 0x0D, CHR 0x1C, CHR 0x1D,
     CHR 0x1E, CHR 0x1F, CHR 0x20, CHR 0x85, CHR 0xA0]"

definition isspace :: "char \<Rightarrow> bool" where
  "isspace c = (c \<in> set py_whitespace)"

definition lstrip :: "string \<Rightarrow> string" where
  "lstrip s = dropWhile isspace s"

definition rstrip :: "string \<Rightarrow> string" where
  "rstrip s = rev (dropWhile isspace (rev s))"

definition strip :: "string \<Rightarrow> string" where
  "strip s = rstrip (lstrip s)"

text \<open>\<^verbatim>\<open>s.rstrip(chars)\<close> with an explicit set of characters.\<close>

definition rstrip_chars :: "string \<Rightarrow> string \<Rightarrow> string" where
  "rstrip_chars s chars = rev (dropWhile (\<lambda>c. c \<in> set chars) (rev s))"

definition upper_char :: "char \<Rightarrow> char" where
  "upper_char c =
     (case map_of (zip ''abcdefghijklmnopqrstuvwxyz'' ''ABCDEFGHIJKLMNOPQRSTUVWXYZ'') c of
        None \<Rightarrow> c
      | Some u \<Rightarrow> u)"

definition upper :: "string \<Rightarrow> string" where
  "upper s = map upper_char s"

definition startswith :: "string \<Rightarrow> string \<Rightarrow> bool" where
  "startswith s p = (take (length p) s = p)"

text \<open>The string methods on an arbitrary object: only \<^verbatim>\<open>str\<close> has them.\<close>

fun py_upper :: "json \<Rightarrow> error + json" where
  "py_upper (JStr s) = Inr (JStr (upper s))"
| "py_upper j = Inl (Unhandled AttributeError)"

fun py_strip :: "json \<Rightarrow> error + string" where
  "py_strip (JStr s) = Inr (strip s)"
| "py_strip j = Inl (Unhandled AttributeError)"

section \<open>Configuration\<close>

text \<open>
  The module reads its settings once, when it is imported. \<open>getenv\<close> is
  \<^verbatim>\<open>os.getenv(name, default)\<close> on the process environment; \<open>STATE_NONCE\<close> is the value
  \<^verbatim>\<open>secrets.token_urlsafe(24)\<close> drew at start-up.
\<close>

record config =
  META_APP_ID :: string
  META_APP_SECRET :: string
  META_REDIRECT_URI :: string
  META_SCOPES :: string
  PUBLIC_BASE_URL :: string
  STATE_NONCE :: string

definition getenv :: "(string \<rightharpoonup> string) \<Rightarrow> string \<Rightarrow> string \<Rightarrow> string" where
  "getenv env name d = (case env name of None \<Rightarrow> d | Some v \<Rightarrow> v)"

definition load_config :: "(string \<rightharpoonup> string) \<Rightarrow> string \<Rightarrow> config" where
  "load_config env nonce =
     \<lparr> META_APP_ID = strip (getenv env ''META_APP_ID'' ''''),
       META_APP_SECRET = strip (getenv env ''META_APP_SECRET'' ''''),
       META_REDIRECT_URI = strip (getenv env ''META_REDIRECT_URI'' ''''),
       META_SCOPES = strip (getenv env ''META_SCOPES''
         ''pages_show_list,pages_read_engagement,instagram_basic,instagram_content_publish''),
       PUBLIC_BASE_URL = rstrip_chars (strip (getenv env ''PUBLIC_BASE_URL''
         ''https://enviarvideo-production.up.railway.app'')) ''/'',
       STATE_NONCE = nonce \<rparr>"

definition get_redirect_uri :: "config \<Rightarrow> string" where
  "get_redirect_uri cfg =
     (if META_REDIRECT_URI cfg \<noteq> [] then META_REDIRECT_URI cfg
      else if PUBLIC_BASE_URL cfg \<noteq> [] then PUBLIC_BASE_URL cfg @ ''/oauth/callback''
      else [])"

text \<open>The list \<^verbatim>\<open>missing\<close> that \<^verbatim>\<open>_require_env\<close> builds, in the order of its tests.\<close>

definition missing_env :: "config \<Rightarrow> string list" where
  "missing_env cfg =
     (if META_APP_ID cfg = [] then [''META_APP_ID''] else []) @
     (if META_APP_SECRET cfg = [] then [''META_APP_SECRET''] else []) @
     (if get_redirect_uri cfg = [] then [''META_REDIRECT_URI ou PUBLIC_BASE_URL''] else []) @
     (if PUBLIC_BASE_URL cfg = [] then [''PUBLIC_BASE_URL''] else [])"

definition require_env :: "config \<Rightarrow> error + unit" where
  "require_env cfg =
     (if missing_env cfg \<noteq> [] then Inl (HTTPException 500 (MissingEnv (missing_env cfg)))
      else Inr ())"

section \<open>The upstream API and the clock\<close>

text \<open>
  The effects of the program are its calls to the upstream API (\<^verbatim>\<open>requests.request\<close>),
  the clock (\<^verbatim>\<open>time.time\<close>, \<^verbatim>\<open>time.sleep\<close>) and the \<^verbatim>\<open>TOKENS\<close> dictionary. The
  world records every call made, in order, and the clock in seconds. The upstream is a
  function from the number of the call to what that call does: it raises, or it answers
  with a status code and a body (\<open>None\<close> for the parsed body when \<^verbatim>\<open>r.json()\<close> raises,
  with the text \<^verbatim>\<open>r.text\<close>), after some seconds. Every call of the source passes
  \<^verbatim>\<open>timeout=60\<close>, which is left out of the record of a call.
\<close>

datatype http_method = GET | POST

record call = meth :: http_method
  url :: endpoint
  params :: "(string \<times> json) list option"
  data :: "(string \<times> json) list option"

datatype reply =
    Raises nat
  | Reply nat "json option" string nat

record world =
  calls :: "call list"
  clock :: int

type_synonym upstream = "nat \<Rightarrow> reply"

text \<open>The value \<^verbatim>\<open>js\<close> of \<^verbatim>\<open>_req\<close>: the parsed body, or the text wrapped in a dictionary.\<close>

definition reply_json :: "json option \<Rightarrow> string \<Rightarrow> json" where
  "reply_json parsed txt = (case parsed of Some j \<Rightarrow> j | None \<Rightarrow> JObj [(''_raw'', JStr txt)])"

definition req :: "upstream \<Rightarrow> http_method \<Rightarrow> endpoint \<Rightarrow> (string \<times> json) list option \<Rightarrow>
    (string \<times> json) list option \<Rightarrow> world \<Rightarrow> (error + json) \<times> world" where
  "req up m u ps d w =
     (let w1 = w\<lparr>calls := calls w @ [\<lparr>meth = m, url = u, params = ps, data = d\<rparr>]\<rparr> in
      case up (length (calls w)) of
        Raises t \<Rightarrow> (Inl (Unhandled RequestException), w1\<lparr>clock := clock w1 + int t\<rparr>)
      | Reply status_code parsed txt t \<Rightarrow>
          (let w2 = w1\<lparr>clock := clock w1 + int t\<rparr>;
               js = reply_json parsed txt
           in if status_code \<ge> 400 then (Inl (HTTPException 400 (UpstreamFailed u js)), w2)
              else (Inr js, w2)))"

section \<open>The session record\<close>

text \<open>The dictionary \<^verbatim>\<open>TOKENS\<close>, with its five keys; every value starts as \<^verbatim>\<open>None\<close>.\<close>

record tokens =
  user_access_token :: json
  page_access_token :: json
  ig_user_id :: json
  page_id :: json
  token_obtained_at :: json

definition TOKENS_init :: tokens where
  "TOKENS_init = \<lparr> user_access_token = JNull, page_access_token = JNull, ig_user_id = JNull,
     page_id = JNull, token_obtained_at = JNull \<rparr>"

section \<open>OAuth and account resolution\<close>

definition exchange_code_for_user_token ::
    "config \<Rightarrow> upstream \<Rightarrow> string \<Rightarrow> world \<Rightarrow> (error + json) \<times> world" where
  "exchange_code_for_user_token cfg up code w =
     (case req up GET OAuthAccessToken
             (Some [(''client_id'', JStr (META_APP_ID cfg)),
                    (''client_secret'', JStr (META_APP_SECRET cfg)),
                    (''redirect_uri'', JStr (get_redirect_uri cfg)),
                    (''code'', JStr code)]) None w of
        (Inl e, w1) \<Rightarrow> (Inl e, w1)
      | (Inr js, w1) \<Rightarrow>
          (case py_get js ''access_token'' of
             Inl e \<Rightarrow> (Inl e, w1)
           | Inr token \<Rightarrow>
               if \<not> truthy token then (Inl (HTTPException 400 (NoAccessToken js)), w1)
               else (Inr token, w1)))"

definition get_pages_and_ig :: "upstream \<Rightarrow> json \<Rightarrow> world \<Rightarrow> (error + json) \<times> world" where
  "get_pages_and_ig up user_token w =
     (case req up GET MeAccounts
             (Some [(''fields'', JStr ''name,access_token,tasks,instagram_business_account''),
                    (''access_token'', user_token)]) None w of
        (Inl e, w1) \<Rightarrow> (Inl e, w1)
      | (Inr js, w1) \<Rightarrow>
          (case py_get_default js ''data'' (JArr []) of
             Inl e \<Rightarrow> (Inl e, w1)
           | Inr dat \<Rightarrow>
               if \<not> truthy dat then (Inl (HTTPException 400 NoPages), w1)
               else (Inr dat, w1)))"

text \<open>
  \<^verbatim>\<open>(p.get("instagram_business_account") or {}).get("id")\<close>: both \<^verbatim>\<open>.get\<close> can raise.
\<close>

definition ig_of :: "json \<Rightarrow> error + json" where
  "ig_of p =
     (case py_get p ''instagram_business_account'' of
        Inl e \<Rightarrow> Inl e
      | Inr a \<Rightarrow> py_get (py_or a (JObj [])) ''id'')"

text \<open>The \<^verbatim>\<open>for\<close> loop of \<^verbatim>\<open>_pick_first_valid_page\<close> over the elements still to visit.\<close>

fun pick_loop :: "json list \<Rightarrow> error + json" where
  "pick_loop [] = Inl (HTTPException 400 NoValidPage)"
| "pick_loop (p # ps) =
     (case ig_of p of
        Inl e \<Rightarrow> Inl e
      | Inr ig \<Rightarrow>
          if truthy ig then
            (case py_get p ''access_token'' of
               Inl e \<Rightarrow> Inl e
             | Inr t \<Rightarrow> if truthy t then Inr p else pick_loop ps)
          else pick_loop ps)"

definition pick_first_valid_page :: "json \<Rightarrow> error + json" where
  "pick_first_valid_page pages =
     (case py_iter pages of Inl e \<Rightarrow> Inl e | Inr ps \<Rightarrow> pick_loop ps)"

section \<open>The publish pipeline\<close>

definition create_container :: "upstream \<Rightarrow> json \<Rightarrow> json \<Rightarrow> string \<Rightarrow> string \<Rightarrow> string \<Rightarrow> bool \<Rightarrow>
    world \<Rightarrow> (error + json) \<times> world" where
  "create_container up ig page_token media_type video_url caption share_to_feed w =
     (let d = [(''media_type'', JStr media_type),
               (''video_url'', JStr video_url),
               (''access_token'', page_token)]
              @ (if caption \<noteq> [] then [(''caption'', JStr caption)] else [])
              @ (if media_type = ''REELS''
                 then [(''share_to_feed'', JStr (if share_to_feed then ''true'' else ''false''))]
                 else [])
      in case req up POST (Media ig) None (Some d) w of
           (Inl e, w1) \<Rightarrow> (Inl e, w1)
         | (Inr js, w1) \<Rightarrow>
             (case py_get js ''id'' of
                Inl e \<Rightarrow> (Inl e, w1)
              | Inr cid \<Rightarrow>
                  if \<not> truthy cid then (Inl (HTTPException 400 (NoContainerId js)), w1)
                  else (Inr cid, w1)))"

text \<open>\<^verbatim>\<open>time.sleep(secs)\<close> raises \<^verbatim>\<open>ValueError\<close> on a negative length.\<close>

definition sleep :: "int \<Rightarrow> world \<Rightarrow> (error + unit) \<times> world" where
  "sleep secs w =
     (if secs < 0 then (Inl (Unhandled ValueError), w)
      else (Inr (), w\<lparr>clock := clock w + secs\<rparr>))"

text \<open>
  The call at the head of the loop of \<^verbatim>\<open>_wait_container\<close>:
  \<^verbatim>\<open>_req("GET", url, params=params, timeout=60)\<close> on the container.
\<close>

definition poll_container :: "upstream \<Rightarrow> json \<Rightarrow> json \<Rightarrow> world \<Rightarrow> (error + json) \<times> world" where
  "poll_container up container_id page_token w =
     req up GET (Container container_id)
       (Some [(''fields'', JStr ''status_code,status''), (''access_token'', page_token)]) None w"

text \<open>
  The \<^verbatim>\<open>while True\<close> loop of \<^verbatim>\<open>_wait_container\<close>. Nothing in its text bounds the number
  of turns (a poll interval of zero and an upstream that answers at once never advance the
  clock), so it is a partial function: \<open>None\<close> is the run that never returns.
\<close>

partial_function (option) wait_loop :: "upstream \<Rightarrow> json \<Rightarrow> json \<Rightarrow> int \<Rightarrow> int \<Rightarrow> int \<Rightarrow> world \<Rightarrow>
    ((error + unit) \<times> world) option" where
  "wait_loop up container_id page_token timeout_sec poll_sec t0 w =
     (case poll_container up container_id page_token w of
        (Inl e, w1) \<Rightarrow> Some (Inl e, w1)
      | (Inr js, w1) \<Rightarrow>
          (case py_get js ''status_code'' of
             Inl e \<Rightarrow> Some (Inl e, w1)
           | Inr status_code \<Rightarrow>
               if status_code = JStr ''FINISHED'' then Some (Inr (), w1)
               else if status_code \<in> set [JStr ''ERROR'', JStr ''EXPIRED'']
                 then Some (Inl (HTTPException 400 (ProcessingFailed js)), w1)
               else if clock w1 - t0 > timeout_sec
                 then Some (Inl (HTTPException 408 ProcessingTimeout), w1)
               else (case sleep poll_sec w1 of
                       (Inl e, w2) \<Rightarrow> Some (Inl e, w2)
                     | (Inr u, w2) \<Rightarrow>
                         wait_loop up container_id page_token timeout_sec poll_sec t0 w2)))"

definition wait_container :: "upstream \<Rightarrow> json \<Rightarrow> json \<Rightarrow> int \<Rightarrow> int \<Rightarrow> world \<Rightarrow>
    ((error + unit) \<times> world) option" where
  "wait_container up container_id page_token timeout_sec poll_sec w =
     wait_loop up container_id page_token timeout_sec poll_sec (clock w) w"

definition publish_container :: "upstream \<Rightarrow> json \<Rightarrow> json \<Rightarrow> json \<Rightarrow> world \<Rightarrow>
    (error + json) \<times> world" where
  "publish_container up ig page_token container_id w =
     (case req up POST (MediaPublish ig) None
             (Some [(''creation_id'', container_id), (''access_token'', page_token)]) w of
        (Inl e, w1) \<Rightarrow> (Inl e, w1)
      | (Inr js, w1) \<Rightarrow>
          (case py_get js ''id'' of
             Inl e \<Rightarrow> (Inl e, w1)
           | Inr mid \<Rightarrow>
               if \<not> truthy mid then (Inl (HTTPException 400 (NoMediaId js)), w1)
               else (Inr mid, w1)))"

section \<open>The routes\<close>

text \<open>
  What a route returns. \<open>RedirectTo\<close> keeps the four values interpolated into the
  authorization URL (the percent-encoding of \<^verbatim>\<open>requests.utils.quote\<close> is not modelled);
  \<open>OAuthError\<close> is the \<^verbatim>\<open>JSONResponse(..., status_code=400)\<close> of the callback;
  \<open>AuthorizedPage\<close> is its HTML page, which shows the page id and the IG user id.
\<close>

datatype response =
    HealthInfo bool
  | HomePage
  | RedirectTo string string string string
  | OAuthError string "string option"
  | AuthorizedPage json json
  | StatusInfo bool bool json json json string string string
  | Published string json json

fun response_status :: "response \<Rightarrow> nat" where
  "response_status (RedirectTo a r s c) = 307"
| "response_status (OAuthError e d) = 400"
| "response_status r = 200"

text \<open>The status code the client sees: of the response, or of the exception raised.\<close>

fun http_status :: "error + response \<Rightarrow> nat" where
  "http_status (Inl e) = error_status e"
| "http_status (Inr r) = response_status r"

definition health :: "tokens \<Rightarrow> error + response" where
  "health tk = Inr (HealthInfo (truthy (user_access_token tk)))"

definition home :: "config \<Rightarrow> error + response" where
  "home cfg = (case require_env cfg of Inl e \<Rightarrow> Inl e | Inr u \<Rightarrow> Inr HomePage)"

definition login :: "config \<Rightarrow> error + response" where
  "login cfg =
     (case require_env cfg of
        Inl e \<Rightarrow> Inl e
      | Inr u \<Rightarrow> Inr (RedirectTo (META_APP_ID cfg) (get_redirect_uri cfg) (STATE_NONCE cfg)
                       (META_SCOPES cfg)))"

text \<open>
  The five assignments to \<^verbatim>\<open>TOKENS\<close> at the end of the callback, one after the other,
  as the source makes them: an exception in the middle would leave the earlier ones done.
\<close>

definition store_tokens :: "json \<Rightarrow> json \<Rightarrow> tokens \<Rightarrow> world \<Rightarrow> (error + unit) \<times> tokens" where
  "store_tokens user_token chosen tk w =
     (let tk1 = tk\<lparr>user_access_token := user_token\<rparr> in
      case py_get chosen ''access_token'' of
        Inl e \<Rightarrow> (Inl e, tk1)
      | Inr pt \<Rightarrow>
          (let tk2 = tk1\<lparr>page_access_token := pt\<rparr> in
           case py_get chosen ''id'' of
             Inl e \<Rightarrow> (Inl e, tk2)
           | Inr pid \<Rightarrow>
               (let tk3 = tk2\<lparr>page_id := pid\<rparr> in
                case ig_of chosen of
                  Inl e \<Rightarrow> (Inl e, tk3)
                | Inr ig \<Rightarrow>
                    (Inr (), tk3\<lparr>ig_user_id := ig, token_obtained_at := JInt (clock w)\<rparr>))))"

definition oauth_callback :: "config \<Rightarrow> upstream \<Rightarrow> string option \<Rightarrow> string option \<Rightarrow>
    string option \<Rightarrow> string option \<Rightarrow> tokens \<Rightarrow> world \<Rightarrow> (error + response) \<times> tokens \<times> world" where
  "oauth_callback cfg up code state err error_description tk w =
     (case require_env cfg of
        Inl e \<Rightarrow> (Inl e, tk, w)
      | Inr u \<Rightarrow>
          if err \<noteq> None \<and> err \<noteq> Some [] then (Inr (OAuthError (the err) error_description), tk, w)
          else if code = None \<or> code = Some []
            then (Inl (HTTPException 400 CallbackWithoutCode), tk, w)
          else if state \<noteq> Some (STATE_NONCE cfg)
            then (Inl (HTTPException 400 InvalidState), tk, w)
          else
            (case exchange_code_for_user_token cfg up (the code) w of
               (Inl e, w1) \<Rightarrow> (Inl e, tk, w1)
             | (Inr user_token, w1) \<Rightarrow>
                 (case get_pages_and_ig up user_token w1 of
                    (Inl e, w2) \<Rightarrow> (Inl e, tk, w2)
                  | (Inr pages, w2) \<Rightarrow>
                      (case pick_first_valid_page pages of
                         Inl e \<Rightarrow> (Inl e, tk, w2)
                       | Inr chosen \<Rightarrow>
                           (case store_tokens user_token chosen tk w2 of
                              (Inl e, tk') \<Rightarrow> (Inl e, tk', w2)
                            | (Inr u, tk') \<Rightarrow>
                                (Inr (AuthorizedPage (page_id tk') (ig_user_id tk')), tk', w2))))))"

definition status :: "config \<Rightarrow> tokens \<Rightarrow> error + response" where
  "status cfg tk =
     Inr (StatusInfo (truthy (user_access_token tk)) (truthy (page_access_token tk))
            (page_id tk) (ig_user_id tk) (token_obtained_at tk)
            (META_SCOPES cfg) (get_redirect_uri cfg) (PUBLIC_BASE_URL cfg))"

text \<open>
  Lines 292 to 296 of \<^verbatim>\<open>publish\<close>: the five values read from the payload, in the order
  of the source, each of which can raise before the next is read. \<open>media_type_of\<close> is
  line 292, \<^verbatim>\<open>(payload.get("media_type") or "REELS").upper().strip()\<close>.
\<close>

definition media_type_of :: "(string \<times> json) list \<Rightarrow> error + string" where
  "media_type_of payload =
     (case py_upper (py_or (dict_get payload ''media_type'' JNull) (JStr ''REELS'')) of
        Inl e \<Rightarrow> Inl e
      | Inr u \<Rightarrow> py_strip u)"

definition publish_args :: "(string \<times> json) list \<Rightarrow> error + (string \<times> string \<times> string \<times> bool \<times> bool)" where
  "publish_args payload =
     (case media_type_of payload of
        Inl e \<Rightarrow> Inl e
      | Inr media_type \<Rightarrow>
     (case py_strip (py_or (dict_get payload ''video_url'' JNull) (JStr [])) of
        Inl e \<Rightarrow> Inl e
      | Inr video_url \<Rightarrow>
     (case py_strip (py_or (dict_get payload ''caption'' JNull) (JStr [])) of
        Inl e \<Rightarrow> Inl e
      | Inr caption \<Rightarrow>
          Inr (media_type, video_url, caption,
               truthy (dict_get payload ''share_to_feed'' (JBool True)),
               truthy (dict_get payload ''wait'' (JBool True))))))"

definition publish :: "upstream \<Rightarrow> (string \<times> json) list \<Rightarrow> tokens \<Rightarrow> world \<Rightarrow>
    ((error + response) \<times> world) option" where
  "publish up payload tk w =
     (if \<not> truthy (page_access_token tk) \<or> \<not> truthy (ig_user_id tk)
        then Some (Inl (HTTPException 401 NoTokens), w)
      else
        (case publish_args payload of
           Inl e \<Rightarrow> Some (Inl e, w)
         | Inr (media_type, video_url, caption, share_to_feed, do_wait) \<Rightarrow>
             if media_type \<notin> set [''REELS'', ''VIDEO'', ''STORIES'']
               then Some (Inl (HTTPException 400 InvalidMediaType), w)
             else if \<not> startswith video_url ''https://''
               then Some (Inl (HTTPException 400 InvalidVideoUrl), w)
             else
               (case create_container up (ig_user_id tk) (page_access_token tk) media_type
                       video_url caption share_to_feed w of
                  (Inl e, w1) \<Rightarrow> Some (Inl e, w1)
                | (Inr container_id, w1) \<Rightarrow>
                    (case (if do_wait
                           then wait_container up container_id (page_access_token tk)
                                  (20 * 60) 5 w1
                           else Some (Inr (), w1)) of
                       None \<Rightarrow> None
                     | Some (Inl e, w2) \<Rightarrow> Some (Inl e, w2)
                     | Some (Inr u, w2) \<Rightarrow>
                         (case publish_container up (ig_user_id tk) (page_access_token tk)
                                 container_id w2 of
                            (Inl e, w3) \<Rightarrow> Some (Inl e, w3)
                          | (Inr media_id, w3) \<Rightarrow>
                              Some (Inr (Published media_type container_id media_id), w3))))))"

subsection \<open>The service as a transition system\<close>

datatype request =
    Health
  | Home
  | Login
  | OAuthCallback "string option" "string option" "string option" "string option"
  | Status
  | Publish "(string \<times> json) list"

text \<open>One request handled in a state of the service: the response, and the state after it.\<close>

fun handle :: "config \<Rightarrow> upstream \<Rightarrow> request \<Rightarrow> tokens \<Rightarrow> world \<Rightarrow>
    ((error + response) \<times> tokens \<times> world) option" where
  "handle cfg up Health tk w = Some (health tk, tk, w)"
| "handle cfg up Home tk w = Some (home cfg, tk, w)"
| "handle cfg up Login tk w = Some (login cfg, tk, w)"
| "handle cfg up (OAuthCallback code state err error_description) tk w =
     Some (oauth_callback cfg up code state err error_description tk w)"
| "handle cfg up Status tk w = Some (status cfg tk, tk, w)"
| "handle cfg up (Publish payload) tk w =
     (case publish up payload tk w of None \<Rightarrow> None | Some (r, w') \<Rightarrow> Some (r, tk, w'))"

text \<open>
  The states the service can be in: it starts with the empty record, and every request
  that returns leads to another state. Time may pass between two requests.
\<close>

inductive reachable :: "config \<Rightarrow> upstream \<Rightarrow> tokens \<Rightarrow> world \<Rightarrow> bool" for cfg up where
  start: "reachable cfg up TOKENS_init \<lparr>calls = [], clock = t\<rparr>"
| request: "reachable cfg up tk w \<Longrightarrow> handle cfg up rq tk w = Some (r, tk', w') \<Longrightarrow>
     reachable cfg up tk' w'"
| tick: "reachable cfg up tk w \<Longrightarrow> reachable cfg up tk (w\<lparr>clock := clock w + int n\<rparr>)"

section \<open>Notions used in the properties\<close>

text \<open>
  A reply to a status poll that shows no terminal status: the call succeeds and the
  \<^verbatim>\<open>status_code\<close> it carries is none of \<^verbatim>\<open>FINISHED\<close>, \<^verbatim>\<open>ERROR\<close>, \<^verbatim>\<open>EXPIRED\<close>.
\<close>

fun pending :: "reply \<Rightarrow> bool" where
  "pending (Raises t) = False"
| "pending (Reply status_code parsed txt t) =
     (status_code < 400 \<and>
      (case py_get (reply_json parsed txt) ''status_code'' of
         Inl e \<Rightarrow> False
       | Inr s \<Rightarrow> s \<notin> set [JStr ''FINISHED'', JStr ''ERROR'', JStr ''EXPIRED'']))"

text \<open>The upstream calls made between two worlds of one run.\<close>

definition new_calls :: "world \<Rightarrow> world \<Rightarrow> call list" where
  "new_calls w w' = drop (length (calls w)) (calls w')"

fun is_commit :: "call \<Rightarrow> bool" where
  "is_commit c = (case url c of MediaPublish x \<Rightarrow> True | _ \<Rightarrow> False)"

text \<open>
  A page as the accounts query lists it: a dictionary whose
  \<^verbatim>\<open>instagram_business_account\<close> is a dictionary when it is there at all. Such a page
  qualifies when its linked account id and its access token are both non-empty.
\<close>

fun page_shaped :: "json \<Rightarrow> bool" where
  "page_shaped (JObj kvs) =
     (case dict_get kvs ''instagram_business_account'' JNull of
        JObj a \<Rightarrow> True
      | v \<Rightarrow> \<not> truthy v)"
| "page_shaped j = False"

fun qualifies :: "json \<Rightarrow> bool" where
  "qualifies (JObj kvs) =
     (truthy (dict_get kvs ''access_token'' JNull) \<and>
      (case dict_get kvs ''instagram_business_account'' JNull of
         JObj a \<Rightarrow> truthy (dict_get a ''id'' JNull)
       | v \<Rightarrow> False))"
| "qualifies j = False"

text \<open>The page token and the publishing-account id are both non-empty or both absent.\<close>

definition session_invariant :: "tokens \<Rightarrow> bool" where
  "session_invariant tk =
     ((truthy (page_access_token tk) \<and> truthy (ig_user_id tk)) \<or>
      (page_access_token tk = JNull \<and> ig_user_id tk = JNull))"

subsection \<open>Sample inputs\<close>

definition w0 :: world where
  "w0 = \<lparr>calls = [], clock = 0\<rparr>"

definition cfg_ok :: config where
  "cfg_ok = \<lparr> META_APP_ID = ''app'', META_APP_SECRET = ''secret'', META_REDIRECT_URI = [],
     META_SCOPES = ''instagram_basic'', PUBLIC_BASE_URL = ''https://svc.example'',
     STATE_NONCE = ''nonce'' \<rparr>"

definition cfg_no_app_id :: config where
  "cfg_no_app_id = cfg_ok\<lparr>META_APP_ID := []\<rparr>"

definition tokens_ok :: tokens where
  "tokens_ok = \<lparr> user_access_token = JStr ''U1'', page_access_token = JStr ''P1'',
     ig_user_id = JStr ''ig1'', page_id = JStr ''pg1'', token_obtained_at = JInt 0 \<rparr>"

text \<open>An upstream that cannot be reached.\<close>

definition up_down :: upstream where
  "up_down n = Raises 0"

text \<open>An upstream that answers every call with the same body, after one second.\<close>

definition up_const :: "json \<Rightarrow> upstream" where
  "up_const js n = Reply 200 (Some js) [] 1"

text \<open>An upstream that answers the calls with the bodies of a list, in order, then fails.\<close>

definition up_script :: "json list \<Rightarrow> upstream" where
  "up_script bodies n = (if n < length bodies then Reply 200 (Some (bodies ! n)) [] 1 else Raises 0)"

definition page1 :: json where
  "page1 = JObj [(''access_token'', JStr ''P1''), (''id'', JStr ''pg1''),
     (''instagram_business_account'', JObj [(''id'', JStr ''ig1'')])]"

definition page_without_ig :: json where
  "page_without_ig = JObj [(''access_token'', JStr ''P0''), (''id'', JStr ''pg0'')]"

definition status_body :: "string \<Rightarrow> json" where
  "status_body s = JObj [(''status_code'', JStr s)]"

definition up_processing_error :: upstream where
  "up_processing_error = up_script [JObj [(''id'', JStr ''c1'')], status_body ''ERROR'']"

definition payload_reel :: "(string \<times> json) list" where
  "payload_reel = [(''media_type'', JStr ''REELS''), (''video_url'', JStr ''https://x/v.mp4'')]"

definition payload_bad_type :: "(string \<times> json) list" where
  "payload_bad_type = [(''media_type'', JInt 5), (''video_url'', JStr ''http://x/v.mp4'')]"

definition payload_lower_video :: "(string \<times> json) list" where
  "payload_lower_video = [(''media_type'', JStr ''video''), (''video_url'', JStr ''https://x/v.mp4'')]"

definition payload_unknown_type :: "(string \<times> json) list" where
  "payload_unknown_type = [(''media_type'', JStr '' photo ''), (''video_url'', JStr ''https://x/v.mp4'')]"

definition accounts_body :: json where
  "accounts_body = JObj [(''data'', JArr [page_without_ig, page1, page_without_ig])]"

definition cfg_empty :: config where
  "cfg_empty = \<lparr> META_APP_ID = [], META_APP_SECRET = [], META_REDIRECT_URI = [],
     META_SCOPES = ''instagram_basic'', PUBLIC_BASE_URL = [], STATE_NONCE = ''nonce'' \<rparr>"

definition up_auth :: upstream where
  "up_auth = up_script [JObj [(''access_token'', JStr ''U1'')], JObj [(''data'', JArr [page1])]]"

section \<open>Facts about the upstream calls\<close>

lemma req_calls:
  "req up m u ps d w = (r, w1) \<Longrightarrow>
     calls w1 = calls w @ [\<lparr>meth = m, url = u, params = ps, data = d\<rparr>]"
  by (auto simp: req_def Let_def split: reply.splits if_splits)

lemma req_clock: "req up m u ps d w = (r, w1) \<Longrightarrow> clock w \<le> clock w1"
  by (auto simp: req_def Let_def split: reply.splits if_splits)

lemma wait_loop_returns:
  assumes "0 < poll_sec"
  shows "\<exists>r. wait_loop up cid pt timeout_sec poll_sec t0 w = Some r"
proof (induction "nat (t0 + timeout_sec + 1 - clock w)" arbitrary: w rule: less_induct)
  case less
  obtain r w1 where p: "poll_container up cid pt w = (r, w1)"
    by (cases "poll_container up cid pt w")
  then have c: "clock w \<le> clock w1"
    by (auto simp: poll_container_def dest: req_clock)
  show ?case
  proof (cases "\<exists>js sc. r = Inr js \<and> py_get js ''status_code'' = Inr sc \<and> sc \<noteq> JStr ''FINISHED''
      \<and> sc \<notin> set [JStr ''ERROR'', JStr ''EXPIRED''] \<and> \<not> clock w1 - t0 > timeout_sec")
    case False
    then show ?thesis using p
      by (subst wait_loop.simps) (auto split: sum.splits prod.splits)
  next
    case True
    then obtain js sc where h: "r = Inr js" "py_get js ''status_code'' = Inr sc"
      "sc \<noteq> JStr ''FINISHED''" "sc \<notin> set [JStr ''ERROR'', JStr ''EXPIRED'']"
      "\<not> clock w1 - t0 > timeout_sec" by blast
    let ?w2 = "w1\<lparr>clock := clock w1 + poll_sec\<rparr>"
    have "nat (t0 + timeout_sec + 1 - clock ?w2) < nat (t0 + timeout_sec + 1 - clock w)"
      using assms c h(5) by simp
    from less[OF this] obtain r' where "wait_loop up cid pt timeout_sec poll_sec t0 ?w2 = Some r'"
      by blast
    then show ?thesis using p h assms
      by (subst wait_loop.simps) (simp add: sleep_def)
  qed
qed


lemma poll_container_calls:
  "poll_container up cid pt w = (r, w1) \<Longrightarrow> \<exists>c. calls w1 = calls w @ [c] \<and> url c = Container cid"
  by (auto simp: poll_container_def dest: req_calls)

lemma poll_container_clock: "poll_container up cid pt w = (r, w1) \<Longrightarrow> clock w \<le> clock w1"
  by (auto simp: poll_container_def dest: req_clock)

lemma poll_container_pending:
  "pending (up (length (calls w))) \<Longrightarrow>
     \<exists>js w1 sc. poll_container up cid pt w = (Inr js, w1) \<and> py_get js ''status_code'' = Inr sc \<and>
        sc \<noteq> JStr ''FINISHED'' \<and> sc \<noteq> JStr ''ERROR'' \<and> sc \<noteq> JStr ''EXPIRED''"
  by (cases "up (length (calls w))")
     (auto simp: poll_container_def req_def Let_def split: sum.splits)

lemma wait_loop_finished:
  "poll_container up cid pt w = (Inr js, w1) \<Longrightarrow> py_get js ''status_code'' = Inr (JStr ''FINISHED'') \<Longrightarrow>
     wait_loop up cid pt timeout_sec poll_sec t0 w = Some (Inr (), w1)"
  by (subst wait_loop.simps) simp

lemma wait_loop_failed:
  "poll_container up cid pt w = (Inr js, w1) \<Longrightarrow> py_get js ''status_code'' = Inr sc \<Longrightarrow>
     sc = JStr ''ERROR'' \<or> sc = JStr ''EXPIRED'' \<Longrightarrow>
     wait_loop up cid pt timeout_sec poll_sec t0 w =
       Some (Inl (HTTPException 400 (ProcessingFailed js)), w1)"
  by (subst wait_loop.simps) auto

lemma wait_loop_timed_out:
  "poll_container up cid pt w = (Inr js, w1) \<Longrightarrow> py_get js ''status_code'' = Inr sc \<Longrightarrow>
     sc \<noteq> JStr ''FINISHED'' \<Longrightarrow> sc \<noteq> JStr ''ERROR'' \<Longrightarrow> sc \<noteq> JStr ''EXPIRED'' \<Longrightarrow>
     clock w1 - t0 > timeout_sec \<Longrightarrow>
     wait_loop up cid pt timeout_sec poll_sec t0 w =
       Some (Inl (HTTPException 408 ProcessingTimeout), w1)"
  by (subst wait_loop.simps) simp

lemma wait_loop_again:
  "poll_container up cid pt w = (Inr js, w1) \<Longrightarrow> py_get js ''status_code'' = Inr sc \<Longrightarrow>
     sc \<noteq> JStr ''FINISHED'' \<Longrightarrow> sc \<noteq> JStr ''ERROR'' \<Longrightarrow> sc \<noteq> JStr ''EXPIRED'' \<Longrightarrow>
     \<not> clock w1 - t0 > timeout_sec \<Longrightarrow> 0 \<le> poll_sec \<Longrightarrow>
     wait_loop up cid pt timeout_sec poll_sec t0 w =
       wait_loop up cid pt timeout_sec poll_sec t0 (w1\<lparr>clock := clock w1 + poll_sec\<rparr>)"
  by (subst wait_loop.simps) (simp add: sleep_def)

lemma wait_loop_calls_aux:
  assumes "wait_loop up cid pt timeout_sec poll_sec t0 w = Some y"
  shows "\<exists>cs. calls (snd y) = calls w @ cs \<and> (\<forall>c \<in> set cs. url c = Container cid)"
proof (rule wait_loop.raw_induct[where P = "\<lambda>up cid pt timeout_sec poll_sec t0 w y.
    \<exists>cs. calls (snd y) = calls w @ cs \<and> (\<forall>c \<in> set cs. url c = Container cid)", OF _ assms],
    goal_cases)
  case (1 wl up cid pt timeout_sec poll_sec t0 w y)
  obtain r1 w1 where p: "poll_container up cid pt w = (r1, w1)"
    by (cases "poll_container up cid pt w")
  then obtain c where c: "calls w1 = calls w @ [c]" "url c = Container cid"
    using poll_container_calls by blast
  show ?case
  proof (cases "wl up cid pt timeout_sec poll_sec t0 (w1\<lparr>clock := clock w1 + poll_sec\<rparr>) = Some y")
    case True
    from "1"(1)[OF this] obtain cs where
      "calls (snd y) = calls (w1\<lparr>clock := clock w1 + poll_sec\<rparr>) @ cs"
      "\<forall>c \<in> set cs. url c = Container cid"
      by blast
    with c have "calls (snd y) = calls w @ (c # cs) \<and> (\<forall>c \<in> set (c # cs). url c = Container cid)"
      by simp
    then show ?thesis by blast
  next
    case False
    with "1"(2) p have "snd y = w1"
      by (auto simp: sleep_def split: sum.splits if_splits)
    with c have "calls (snd y) = calls w @ [c] \<and> (\<forall>c \<in> set [c]. url c = Container cid)" by simp
    then show ?thesis by blast
  qed
qed

lemma wait_loop_calls:
  "wait_loop up cid pt timeout_sec poll_sec t0 w = Some (r, w') \<Longrightarrow>
     \<exists>cs. calls w' = calls w @ cs \<and> (\<forall>c \<in> set cs. url c = Container cid)"
  by (drule wait_loop_calls_aux) simp

lemma wait_loop_pending:
  assumes "0 < poll_sec" and "\<forall>n \<ge> length (calls w). pending (up n)"
  shows "\<exists>w'. wait_loop up cid pt timeout_sec poll_sec t0 w =
           Some (Inl (HTTPException 408 ProcessingTimeout), w') \<and> clock w' - t0 > timeout_sec"
  using assms(2)
proof (induction "nat (t0 + timeout_sec + 1 - clock w)" arbitrary: w rule: less_induct)
  case less
  from less.prems have "pending (up (length (calls w)))" by simp
  from poll_container_pending[of up w cid pt, OF this] obtain js w1 sc where
    p: "poll_container up cid pt w = (Inr js, w1)" "py_get js ''status_code'' = Inr sc"
       "sc \<noteq> JStr ''FINISHED''" "sc \<noteq> JStr ''ERROR''" "sc \<noteq> JStr ''EXPIRED''"
    by blast
  show ?case
  proof (cases "clock w1 - t0 > timeout_sec")
    case True
    with p show ?thesis by (auto dest: wait_loop_timed_out)
  next
    case False
    let ?w2 = "w1\<lparr>clock := clock w1 + poll_sec\<rparr>"
    have c: "clock w \<le> clock w1" using p(1) by (rule poll_container_clock)
    have m: "nat (t0 + timeout_sec + 1 - clock ?w2) < nat (t0 + timeout_sec + 1 - clock w)"
      using assms(1) c False by simp
    have "length (calls w) \<le> length (calls ?w2)"
      using poll_container_calls[OF p(1)] by auto
    with less.prems have "\<forall>n \<ge> length (calls ?w2). pending (up n)" by simp
    from less.hyps[OF m this] obtain w' where
      "wait_loop up cid pt timeout_sec poll_sec t0 ?w2 =
         Some (Inl (HTTPException 408 ProcessingTimeout), w')" "clock w' - t0 > timeout_sec"
      by blast
    moreover have "wait_loop up cid pt timeout_sec poll_sec t0 w =
        wait_loop up cid pt timeout_sec poll_sec t0 ?w2"
      using p False assms(1) by (intro wait_loop_again) auto
    ultimately show ?thesis by simp
  qed
qed

lemma wait_container_returns:
  "0 < poll_sec \<Longrightarrow> \<exists>r. wait_container up cid pt timeout_sec poll_sec w = Some r"
  unfolding wait_container_def by (rule wait_loop_returns)

lemma poll_const:
  "poll_container (up_const js) cid pt w =
     (Inr js, \<lparr>calls = calls w @ [\<lparr>meth = GET, url = Container cid,
        params = Some [(''fields'', JStr ''status_code,status''), (''access_token'', pt)],
        data = None\<rparr>], clock = clock w + 1\<rparr>)"
  by (simp add: poll_container_def req_def up_const_def reply_json_def)

section \<open>The processing wait\<close>

text \<open>
  Claim C4. \<^verbatim>\<open>_wait_container\<close> with its timeout of 1200 seconds and its poll interval of
  5 seconds always returns. At each turn of its loop, whatever the start time \<open>t0\<close>: a
  poll that shows \<^verbatim>\<open>FINISHED\<close> ends the wait with success; a poll that shows
  \<^verbatim>\<open>ERROR\<close> or \<^verbatim>\<open>EXPIRED\<close> ends it with a 400 error after that single call; a poll
  that shows any other status ends it with a 408 error when more than 1200 seconds have
  passed since the start, and otherwise the loop sleeps 5 seconds and polls again. When no
  poll ever shows a terminal status, the wait fails with 408, more than 1200 seconds after
  it began.
\<close>

theorem wait_container_outcomes:
  "(\<exists>r. wait_container up cid pt (20 * 60) 5 w = Some r) \<and>
   (\<forall>js w1 sc. poll_container up cid pt w = (Inr js, w1) \<and> py_get js ''status_code'' = Inr sc \<longrightarrow>
      (sc = JStr ''FINISHED'' \<longrightarrow>
         wait_loop up cid pt (20 * 60) 5 t0 w = Some (Inr (), w1)) \<and>
      (sc = JStr ''ERROR'' \<or> sc = JStr ''EXPIRED'' \<longrightarrow>
         wait_loop up cid pt (20 * 60) 5 t0 w =
           Some (Inl (HTTPException 400 (ProcessingFailed js)), w1) \<and>
         length (new_calls w w1) = 1) \<and>
      (sc \<noteq> JStr ''FINISHED'' \<and> sc \<noteq> JStr ''ERROR'' \<and> sc \<noteq> JStr ''EXPIRED'' \<longrightarrow>
         (clock w1 - t0 > 20 * 60 \<longrightarrow>
            wait_loop up cid pt (20 * 60) 5 t0 w =
              Some (Inl (HTTPException 408 ProcessingTimeout), w1)) \<and>
         (\<not> clock w1 - t0 > 20 * 60 \<longrightarrow>
            wait_loop up cid pt (20 * 60) 5 t0 w =
              wait_loop up cid pt (20 * 60) 5 t0 (w1\<lparr>clock := clock w1 + 5\<rparr>)))) \<and>
   ((\<forall>n \<ge> length (calls w). pending (up n)) \<longrightarrow>
      (\<exists>w'. wait_container up cid pt (20 * 60) 5 w =
               Some (Inl (HTTPException 408 ProcessingTimeout), w') \<and>
             clock w' - clock w > 20 * 60))"
proof (intro conjI allI impI)
  show "\<exists>r. wait_container up cid pt (20 * 60) 5 w = Some r"
    by (rule wait_container_returns) simp
next
  fix js w1 sc
  assume "poll_container up cid pt w = (Inr js, w1) \<and> py_get js ''status_code'' = Inr sc"
    and "sc = JStr ''FINISHED''"
  then show "wait_loop up cid pt (20 * 60) 5 t0 w = Some (Inr (), w1)"
    by (auto intro: wait_loop_finished)
next
  fix js w1 sc
  assume "poll_container up cid pt w = (Inr js, w1) \<and> py_get js ''status_code'' = Inr sc"
    and "sc = JStr ''ERROR'' \<or> sc = JStr ''EXPIRED''"
  then show "wait_loop up cid pt (20 * 60) 5 t0 w =
      Some (Inl (HTTPException 400 (ProcessingFailed js)), w1)"
    by (intro wait_loop_failed) auto
next
  fix js w1 sc
  assume "poll_container up cid pt w = (Inr js, w1) \<and> py_get js ''status_code'' = Inr sc"
  then show "length (new_calls w w1) = 1"
    by (auto simp: new_calls_def dest: poll_container_calls)
next
  fix js w1 sc
  assume "poll_container up cid pt w = (Inr js, w1) \<and> py_get js ''status_code'' = Inr sc"
    and "sc \<noteq> JStr ''FINISHED'' \<and> sc \<noteq> JStr ''ERROR'' \<and> sc \<noteq> JStr ''EXPIRED''"
    and "clock w1 - t0 > 20 * 60"
  then show "wait_loop up cid pt (20 * 60) 5 t0 w =
      Some (Inl (HTTPException 408 ProcessingTimeout), w1)"
    by (intro wait_loop_timed_out) auto
next
  fix js w1 sc
  assume "poll_container up cid pt w = (Inr js, w1) \<and> py_get js ''status_code'' = Inr sc"
    and "sc \<noteq> JStr ''FINISHED'' \<and> sc \<noteq> JStr ''ERROR'' \<and> sc \<noteq> JStr ''EXPIRED''"
    and "\<not> clock w1 - t0 > 20 * 60"
  then show "wait_loop up cid pt (20 * 60) 5 t0 w =
      wait_loop up cid pt (20 * 60) 5 t0 (w1\<lparr>clock := clock w1 + 5\<rparr>)"
    by (intro wait_loop_again) auto
next
  assume "\<forall>n \<ge> length (calls w). pending (up n)"
  then show "\<exists>w'. wait_container up cid pt (20 * 60) 5 w =
               Some (Inl (HTTPException 408 ProcessingTimeout), w') \<and>
             clock w' - clock w > 20 * 60"
    unfolding wait_container_def by (intro wait_loop_pending) auto
qed

theorem wait_container_outcomes_witness:
  "wait_loop (up_const (status_body ''FINISHED'')) (JStr ''c1'') (JStr ''P1'') (20 * 60) 5 0 w0 =
     Some (Inr (), snd (poll_container (up_const (status_body ''FINISHED'')) (JStr ''c1'') (JStr ''P1'') w0)) \<and>
   wait_loop (up_const (status_body ''ERROR'')) (JStr ''c1'') (JStr ''P1'') (20 * 60) 5 0 w0 =
     Some (Inl (HTTPException 400 (ProcessingFailed (status_body ''ERROR''))),
           snd (poll_container (up_const (status_body ''ERROR'')) (JStr ''c1'') (JStr ''P1'') w0)) \<and>
   wait_loop (up_const (status_body ''IN_PROGRESS'')) (JStr ''c1'') (JStr ''P1'') (20 * 60) 5 (- 1200) w0 =
     Some (Inl (HTTPException 408 ProcessingTimeout),
           snd (poll_container (up_const (status_body ''IN_PROGRESS'')) (JStr ''c1'') (JStr ''P1'') w0)) \<and>
   (\<exists>w'. wait_container (up_const (status_body ''IN_PROGRESS'')) (JStr ''c1'') (JStr ''P1'') (20 * 60) 5 w0 =
      Some (Inl (HTTPException 408 ProcessingTimeout), w') \<and> clock w' - clock w0 > 20 * 60)"
  using wait_container_outcomes [of "up_const (status_body ''FINISHED'')" "JStr ''c1''" "JStr ''P1''" w0 0]
    wait_container_outcomes [of "up_const (status_body ''ERROR'')" "JStr ''c1''" "JStr ''P1''" w0 0]
    wait_container_outcomes [of "up_const (status_body ''IN_PROGRESS'')" "JStr ''c1''" "JStr ''P1''" w0 "- 1200"]
  by (simp add: poll_const status_body_def py_get_def dict_get_def w0_def up_const_def reply_json_def)

section \<open>Requests without a session\<close>

text \<open>
  Claim C6. A \<^verbatim>\<open>/publish\<close> request made while the session record has no page access
  token or no publishing-account id fails with a 401 error and leaves the world as it
  was: no upstream call is made. The record the service starts with is such a session.
\<close>

theorem publish_without_session:
  "(\<not> truthy (page_access_token tk) \<or> \<not> truthy (ig_user_id tk) \<longrightarrow>
      publish up payload tk w = Some (Inl (HTTPException 401 NoTokens), w)) \<and>
   publish up payload TOKENS_init w = Some (Inl (HTTPException 401 NoTokens), w)"
  by (simp add: publish_def TOKENS_init_def)

theorem publish_without_session_witness:
  "\<not> truthy (page_access_token (tokens_ok\<lparr>page_access_token := JNull\<rparr>)) \<and>
   publish up_down [(''video_url'', JStr ''https://x/v.mp4'')]
     (tokens_ok\<lparr>page_access_token := JNull\<rparr>) w0 = Some (Inl (HTTPException 401 NoTokens), w0)"
  using publish_without_session [of "tokens_ok\<lparr>page_access_token := JNull\<rparr>" up_down
      "[(''video_url'', JStr ''https://x/v.mp4'')]" w0]
  by (simp add: tokens_ok_def)

lemma create_container_calls:
  "create_container up ig pt mt vu cap sf w = (r, w1) \<Longrightarrow>
     \<exists>c. calls w1 = calls w @ [c] \<and> url c = Media ig"
  unfolding create_container_def Let_def
  by (cases "req up POST (Media ig) None (Some ([(''media_type'', JStr mt), (''video_url'', JStr vu),
         (''access_token'', pt)] @ (if cap \<noteq> [] then [(''caption'', JStr cap)] else []) @
         (if mt = ''REELS'' then [(''share_to_feed'', JStr (if sf then ''true'' else ''false''))] else []))) w")
     (auto split: sum.splits if_splits dest: req_calls)

lemma publish_container_calls:
  "publish_container up ig pt cid w = (r, w1) \<Longrightarrow>
     \<exists>c. calls w1 = calls w @ [c] \<and> url c = MediaPublish ig"
  unfolding publish_container_def
  by (cases "req up POST (MediaPublish ig) None (Some [(''creation_id'', cid), (''access_token'', pt)]) w")
     (auto split: sum.splits if_splits dest: req_calls)

lemma wait_1200_returns: "\<exists>r w2. wait_container up cid pt (20 * 60) 5 w1 = Some (r, w2)"
  using wait_container_returns [of 5 up cid pt "20 * 60" w1] by auto

lemma no_commit_until_waited:
  assumes "create_container up ig pt mt vu cap sf w = (r1, w1)"
    and "wait_container up cid pt' timeout_sec poll_sec w1 = Some (r2, w2)"
  shows "\<not> list_ex is_commit (new_calls w w2)"
proof -
  obtain c where c: "calls w1 = calls w @ [c]" "url c = Media ig"
    using create_container_calls[OF assms(1)] by blast
  obtain cs where cs: "calls w2 = calls w1 @ cs" "\<forall>c \<in> set cs. url c = Container cid"
    using wait_loop_calls[OF assms(2)[unfolded wait_container_def]] by blast
  have "new_calls w w2 = c # cs" using c cs by (simp add: new_calls_def)
  then show ?thesis using c cs by (auto simp: list_ex_iff)
qed

lemma publish_valid:
  assumes "truthy (page_access_token tk)" "truthy (ig_user_id tk)"
    and "publish_args payload = Inr (mt, vu, cap, sf, dw)"
    and "mt \<in> set [''REELS'', ''VIDEO'', ''STORIES'']" "startswith vu ''https://''"
  shows "publish up payload tk w =
    (case create_container up (ig_user_id tk) (page_access_token tk) mt vu cap sf w of
       (Inl e, w1) \<Rightarrow> Some (Inl e, w1)
     | (Inr cid, w1) \<Rightarrow>
         (case (if dw then wait_container up cid (page_access_token tk) (20 * 60) 5 w1
                else Some (Inr (), w1)) of
            None \<Rightarrow> None
          | Some (Inl e, w2) \<Rightarrow> Some (Inl e, w2)
          | Some (Inr u, w2) \<Rightarrow>
              (case publish_container up (ig_user_id tk) (page_access_token tk) cid w2 of
                 (Inl e, w3) \<Rightarrow> Some (Inl e, w3)
               | (Inr mid, w3) \<Rightarrow> Some (Inr (Published mt cid mid), w3))))"
  using assms by (auto simp: publish_def)

lemma publish_invalid:
  assumes "\<not> (truthy (page_access_token tk) \<and> truthy (ig_user_id tk) \<and>
     (\<exists>mt vu cap sf dw. publish_args payload = Inr (mt, vu, cap, sf, dw) \<and>
        mt \<in> set [''REELS'', ''VIDEO'', ''STORIES''] \<and> startswith vu ''https://''))"
  shows "\<exists>e. publish up payload tk w = Some (Inl e, w)"
proof (cases "truthy (page_access_token tk) \<and> truthy (ig_user_id tk)")
  case False
  then show ?thesis by (auto simp: publish_def)
next
  case True
  show ?thesis
  proof (cases "publish_args payload")
    case (Inl e)
    with True show ?thesis by (simp add: publish_def)
  next
    case (Inr a)
    obtain mt vu cap sf dw where a: "a = (mt, vu, cap, sf, dw)" by (cases a) auto
    with Inr assms True have "\<not> (mt \<in> set [''REELS'', ''VIDEO'', ''STORIES''] \<and> startswith vu ''https://'')"
      by blast
    with Inr a True show ?thesis by (auto simp: publish_def)
  qed
qed

lemma wait_1200_not_None: "wait_container up cid pt 1200 5 w1 \<noteq> None"
  using wait_container_returns [of 5 up cid pt 1200 w1] by auto

lemma publish_returns: "\<exists>r w'. publish up payload tk w = Some (r, w')"
proof (cases "truthy (page_access_token tk) \<and> truthy (ig_user_id tk) \<and>
     (\<exists>mt vu cap sf dw. publish_args payload = Inr (mt, vu, cap, sf, dw) \<and>
        mt \<in> set [''REELS'', ''VIDEO'', ''STORIES''] \<and> startswith vu ''https://'')")
  case False
  from publish_invalid[OF this] show ?thesis by blast
next
  case True
  then obtain mt vu cap sf dw where "truthy (page_access_token tk)" "truthy (ig_user_id tk)"
    "publish_args payload = Inr (mt, vu, cap, sf, dw)"
    "mt \<in> set [''REELS'', ''VIDEO'', ''STORIES'']" "startswith vu ''https://''" by blast
  note v = publish_valid[OF this]
  show ?thesis unfolding v
    by (auto split: prod.splits sum.splits option.splits simp: wait_1200_not_None)
qed

lemma publish_success:
  assumes "publish up payload tk w = Some (Inr resp, w')"
  shows "\<exists>mt vu cap sf dw cid mid w1 w2.
       publish_args payload = Inr (mt, vu, cap, sf, dw) \<and>
       create_container up (ig_user_id tk) (page_access_token tk) mt vu cap sf w = (Inr cid, w1) \<and>
       (if dw then wait_container up cid (page_access_token tk) (20 * 60) 5 w1 = Some (Inr (), w2)
        else w2 = w1) \<and>
       publish_container up (ig_user_id tk) (page_access_token tk) cid w2 = (Inr mid, w') \<and>
       resp = Published mt cid mid"
proof (cases "truthy (page_access_token tk) \<and> truthy (ig_user_id tk) \<and>
     (\<exists>mt vu cap sf dw. publish_args payload = Inr (mt, vu, cap, sf, dw) \<and>
        mt \<in> set [''REELS'', ''VIDEO'', ''STORIES''] \<and> startswith vu ''https://'')")
  case False
  from publish_invalid[OF this, of up w] assms show ?thesis by auto
next
  case True
  then obtain mt vu cap sf dw where a: "truthy (page_access_token tk)" "truthy (ig_user_id tk)"
    "publish_args payload = Inr (mt, vu, cap, sf, dw)"
    "mt \<in> set [''REELS'', ''VIDEO'', ''STORIES'']" "startswith vu ''https://''" by blast
  note v = publish_valid[OF this]
  show ?thesis using assms a(3) unfolding v
    by (auto split: prod.splits sum.splits option.splits if_splits)
qed

lemma publish_failure:
  assumes "publish up payload tk w = Some (Inl e, w')"
  shows "w' = w \<or>
    (\<exists>mt vu cap sf dw. publish_args payload = Inr (mt, vu, cap, sf, dw) \<and>
       (create_container up (ig_user_id tk) (page_access_token tk) mt vu cap sf w = (Inl e, w') \<or>
        (\<exists>cid w1. create_container up (ig_user_id tk) (page_access_token tk) mt vu cap sf w = (Inr cid, w1) \<and>
           ((dw \<and> wait_container up cid (page_access_token tk) (20 * 60) 5 w1 = Some (Inl e, w') \<and>
             \<not> list_ex is_commit (new_calls w w')) \<or>
            (\<exists>w2. (if dw then wait_container up cid (page_access_token tk) (20 * 60) 5 w1 = Some (Inr (), w2)
                   else w2 = w1) \<and>
              publish_container up (ig_user_id tk) (page_access_token tk) cid w2 = (Inl e, w'))))))"
proof (cases "truthy (page_access_token tk) \<and> truthy (ig_user_id tk) \<and>
     (\<exists>mt vu cap sf dw. publish_args payload = Inr (mt, vu, cap, sf, dw) \<and>
        mt \<in> set [''REELS'', ''VIDEO'', ''STORIES''] \<and> startswith vu ''https://'')")
  case False
  from publish_invalid[OF this, of up w] assms show ?thesis by auto
next
  case True
  then obtain mt vu cap sf dw where a: "truthy (page_access_token tk)" "truthy (ig_user_id tk)"
    "publish_args payload = Inr (mt, vu, cap, sf, dw)"
    "mt \<in> set [''REELS'', ''VIDEO'', ''STORIES'']" "startswith vu ''https://''" by blast
  note v = publish_valid[OF this]
  show ?thesis using assms a(3) unfolding v
    by (auto split: prod.splits sum.splits option.splits if_splits dest: no_commit_until_waited)
qed

lemmas string_eval = strip_def lstrip_def rstrip_def isspace_def py_whitespace_def upper_def
  upper_char_def startswith_def

lemmas payload_eval = publish_args_def media_type_of_def dict_get_def py_or_def

section \<open>The publish pipeline as a whole\<close>

text \<open>
  Claim C8. Every \<^verbatim>\<open>/publish\<close> request returns. When it succeeds, the container was
  created, the processing wait (when asked for) ended with success, the commit call
  succeeded, and the response carries the container id and the media id. When it fails,
  either no step was run at all (the world is unchanged), or the error is the one of the
  first step that failed and no later step was run: a failed creation is followed by no
  other call, and a failed wait by no commit call. In particular, for a valid request that
  waits, a wait that fails makes the request fail with the same error, and none of the
  calls of the request is a commit.
\<close>

theorem publish_all_or_abort:
  "(\<exists>r w'. publish up payload tk w = Some (r, w')) \<and>
   (\<forall>resp w'. publish up payload tk w = Some (Inr resp, w') \<longrightarrow>
      (\<exists>mt vu cap sf dw cid mid w1 w2.
         publish_args payload = Inr (mt, vu, cap, sf, dw) \<and>
         create_container up (ig_user_id tk) (page_access_token tk) mt vu cap sf w = (Inr cid, w1) \<and>
         (if dw then wait_container up cid (page_access_token tk) (20 * 60) 5 w1 = Some (Inr (), w2)
          else w2 = w1) \<and>
         publish_container up (ig_user_id tk) (page_access_token tk) cid w2 = (Inr mid, w') \<and>
         resp = Published mt cid mid)) \<and>
   (\<forall>e w'. publish up payload tk w = Some (Inl e, w') \<longrightarrow>
      w' = w \<or>
      (\<exists>mt vu cap sf dw. publish_args payload = Inr (mt, vu, cap, sf, dw) \<and>
         (create_container up (ig_user_id tk) (page_access_token tk) mt vu cap sf w = (Inl e, w') \<or>
          (\<exists>cid w1. create_container up (ig_user_id tk) (page_access_token tk) mt vu cap sf w = (Inr cid, w1) \<and>
             ((dw \<and> wait_container up cid (page_access_token tk) (20 * 60) 5 w1 = Some (Inl e, w') \<and>
               \<not> list_ex is_commit (new_calls w w')) \<or>
              (\<exists>w2. (if dw then wait_container up cid (page_access_token tk) (20 * 60) 5 w1 = Some (Inr (), w2)
                     else w2 = w1) \<and>
                publish_container up (ig_user_id tk) (page_access_token tk) cid w2 = (Inl e, w'))))))) \<and>
   (\<forall>mt vu cap sf cid w1 e w2.
      truthy (page_access_token tk) \<and> truthy (ig_user_id tk) \<and>
      publish_args payload = Inr (mt, vu, cap, sf, True) \<and>
      mt \<in> set [''REELS'', ''VIDEO'', ''STORIES''] \<and> startswith vu ''https://'' \<and>
      create_container up (ig_user_id tk) (page_access_token tk) mt vu cap sf w = (Inr cid, w1) \<and>
      wait_container up cid (page_access_token tk) (20 * 60) 5 w1 = Some (Inl e, w2) \<longrightarrow>
      publish up payload tk w = Some (Inl e, w2) \<and> \<not> list_ex is_commit (new_calls w w2))"
proof (intro conjI allI impI)
  show "\<exists>r w'. publish up payload tk w = Some (r, w')" by (rule publish_returns)
next
  fix resp w' assume "publish up payload tk w = Some (Inr resp, w')"
  then show "\<exists>mt vu cap sf dw cid mid w1 w2.
         publish_args payload = Inr (mt, vu, cap, sf, dw) \<and>
         create_container up (ig_user_id tk) (page_access_token tk) mt vu cap sf w = (Inr cid, w1) \<and>
         (if dw then wait_container up cid (page_access_token tk) (20 * 60) 5 w1 = Some (Inr (), w2)
          else w2 = w1) \<and>
         publish_container up (ig_user_id tk) (page_access_token tk) cid w2 = (Inr mid, w') \<and>
         resp = Published mt cid mid"
    by (rule publish_success)
next
  fix e w' assume "publish up payload tk w = Some (Inl e, w')"
  then show "w' = w \<or>
      (\<exists>mt vu cap sf dw. publish_args payload = Inr (mt, vu, cap, sf, dw) \<and>
         (create_container up (ig_user_id tk) (page_access_token tk) mt vu cap sf w = (Inl e, w') \<or>
          (\<exists>cid w1. create_container up (ig_user_id tk) (page_access_token tk) mt vu cap sf w = (Inr cid, w1) \<and>
             ((dw \<and> wait_container up cid (page_access_token tk) (20 * 60) 5 w1 = Some (Inl e, w') \<and>
               \<not> list_ex is_commit (new_calls w w')) \<or>
              (\<exists>w2. (if dw then wait_container up cid (page_access_token tk) (20 * 60) 5 w1 = Some (Inr (), w2)
                     else w2 = w1) \<and>
                publish_container up (ig_user_id tk) (page_access_token tk) cid w2 = (Inl e, w'))))))"
    by (rule publish_failure)
next
  fix mt vu cap sf cid w1 e w2
  assume a: "truthy (page_access_token tk) \<and> truthy (ig_user_id tk) \<and>
      publish_args payload = Inr (mt, vu, cap, sf, True) \<and>
      mt \<in> set [''REELS'', ''VIDEO'', ''STORIES''] \<and> startswith vu ''https://'' \<and>
      create_container up (ig_user_id tk) (page_access_token tk) mt vu cap sf w = (Inr cid, w1) \<and>
      wait_container up cid (page_access_token tk) (20 * 60) 5 w1 = Some (Inl e, w2)"
  then have v: "publish up payload tk w =
      (case create_container up (ig_user_id tk) (page_access_token tk) mt vu cap sf w of
       (Inl e, w1) \<Rightarrow> Some (Inl e, w1)
     | (Inr cid, w1) \<Rightarrow>
         (case (if True then wait_container up cid (page_access_token tk) (20 * 60) 5 w1
                else Some (Inr (), w1)) of
            None \<Rightarrow> None
          | Some (Inl e, w2) \<Rightarrow> Some (Inl e, w2)
          | Some (Inr u, w2) \<Rightarrow>
              (case publish_container up (ig_user_id tk) (page_access_token tk) cid w2 of
                 (Inl e, w3) \<Rightarrow> Some (Inl e, w3)
               | (Inr mid, w3) \<Rightarrow> Some (Inr (Published mt cid mid), w3))))"
    by (intro publish_valid) auto
  from a show "publish up payload tk w = Some (Inl e, w2)"
    unfolding v by simp
  from a show "\<not> list_ex is_commit (new_calls w w2)"
    by (auto dest: no_commit_until_waited)
qed

theorem publish_all_or_abort_witness:
  "(\<exists>w2. publish up_processing_error payload_reel tokens_ok w0 =
      Some (Inl (HTTPException 400 (ProcessingFailed (status_body ''ERROR''))), w2) \<and>
      \<not> list_ex is_commit (new_calls w0 w2))"
proof -
  have args: "publish_args payload_reel = Inr (''REELS'', ''https://x/v.mp4'', [], True, True)"
    by (simp add: payload_reel_def payload_eval string_eval)
  obtain w1 where w1: "w1 = snd (create_container up_processing_error (JStr ''ig1'') (JStr ''P1'')
      ''REELS'' ''https://x/v.mp4'' [] True w0)" by simp
  have c: "create_container up_processing_error (JStr ''ig1'') (JStr ''P1'')
      ''REELS'' ''https://x/v.mp4'' [] True w0 = (Inr (JStr ''c1''), w1)"
    unfolding w1
    by (simp add: create_container_def req_def up_processing_error_def up_script_def w0_def
        reply_json_def py_get_def dict_get_def)
  have l: "length (calls w1) = 1"
    using create_container_calls[OF c] by (auto simp: w0_def)
  obtain w2 where w2: "w2 = snd (poll_container up_processing_error (JStr ''c1'') (JStr ''P1'') w1)"
    by simp
  have p: "poll_container up_processing_error (JStr ''c1'') (JStr ''P1'') w1 =
      (Inr (status_body ''ERROR''), w2)"
    unfolding w2
    by (simp add: poll_container_def req_def up_processing_error_def up_script_def l reply_json_def)
  have wt: "wait_container up_processing_error (JStr ''c1'') (JStr ''P1'') (20 * 60) 5 w1 =
      Some (Inl (HTTPException 400 (ProcessingFailed (status_body ''ERROR''))), w2)"
    unfolding wait_container_def
    by (rule wait_loop_failed[OF p, of "JStr ''ERROR''"])
       (simp_all add: status_body_def py_get_def dict_get_def)
  show ?thesis
    using publish_all_or_abort [of up_processing_error payload_reel tokens_ok w0] args c wt
    by (simp add: tokens_ok_def string_eval)
qed

section \<open>Validation of the publish payload\<close>

lemma req_error:
  "req up m u ps d w = (Inl e, w1) \<Longrightarrow>
     e = Unhandled RequestException \<or> (\<exists>js. e = HTTPException 400 (UpstreamFailed u js))"
  by (auto simp: req_def Let_def split: reply.splits if_splits)

lemma create_container_error:
  "create_container up ig pt mt vu cap sf w = (Inl e, w1) \<Longrightarrow> e \<noteq> HTTPException 400 InvalidMediaType"
  unfolding create_container_def Let_def
  by (cases "req up POST (Media ig) None (Some ([(''media_type'', JStr mt), (''video_url'', JStr vu),
         (''access_token'', pt)] @ (if cap \<noteq> [] then [(''caption'', JStr cap)] else []) @
         (if mt = ''REELS'' then [(''share_to_feed'', JStr (if sf then ''true'' else ''false''))] else []))) w")
     (auto split: sum.splits if_splits dest: req_error simp: py_get_def elim: py_get_default.elims)

lemma publish_container_error:
  "publish_container up ig pt cid w = (Inl e, w1) \<Longrightarrow> e \<noteq> HTTPException 400 InvalidMediaType"
  unfolding publish_container_def
  by (cases "req up POST (MediaPublish ig) None (Some [(''creation_id'', cid), (''access_token'', pt)]) w")
     (auto split: sum.splits if_splits dest: req_error simp: py_get_def elim: py_get_default.elims)

lemma py_get_error: "py_get j k = Inl e \<Longrightarrow> e = Unhandled AttributeError"
  by (cases j) (auto simp: py_get_def)

lemma wait_loop_error:
  assumes "wait_loop up cid pt timeout_sec poll_sec t0 w = Some y"
  shows "fst y \<noteq> Inl (HTTPException 400 InvalidMediaType)"
proof (rule wait_loop.raw_induct[where P = "\<lambda>up cid pt timeout_sec poll_sec t0 w y.
    fst y \<noteq> Inl (HTTPException 400 InvalidMediaType)", OF _ assms], goal_cases)
  case (1 wl up cid pt timeout_sec poll_sec t0 w y)
  obtain r1 w1 where p: "poll_container up cid pt w = (r1, w1)"
    by (cases "poll_container up cid pt w")
  show ?case
  proof (cases "wl up cid pt timeout_sec poll_sec t0 (w1\<lparr>clock := clock w1 + poll_sec\<rparr>) = Some y")
    case True
    from "1"(1)[OF this] show ?thesis .
  next
    case False
    with "1"(2) p show ?thesis
      by (auto simp: sleep_def poll_container_def split: sum.splits if_splits
          dest: req_error py_get_error)
  qed
qed

lemma wait_container_error:
  "wait_container up cid pt timeout_sec poll_sec w = Some (Inl e, w') \<Longrightarrow>
     e \<noteq> HTTPException 400 InvalidMediaType"
  unfolding wait_container_def by (drule wait_loop_error) simp

lemma publish_args_media_type:
  "publish_args payload = Inr (mt, vu, cap, sf, dw) \<Longrightarrow> media_type_of payload = Inr mt"
  by (auto simp: publish_args_def split: sum.splits)

lemma publish_invalid_media_type_iff:
  assumes "truthy (page_access_token tk)" "truthy (ig_user_id tk)"
  shows "publish up payload tk w = Some (Inl (HTTPException 400 InvalidMediaType), w') \<longleftrightarrow>
     (w' = w \<and> (\<exists>mt vu cap sf dw. publish_args payload = Inr (mt, vu, cap, sf, dw) \<and>
        mt \<notin> set [''REELS'', ''VIDEO'', ''STORIES'']))"
proof (cases "publish_args payload")
  case (Inl e)
  then have "e \<noteq> HTTPException 400 InvalidMediaType"
    by (auto simp: publish_args_def media_type_of_def split: sum.splits
        elim!: py_upper.elims py_strip.elims)
  with Inl assms show ?thesis by (auto simp: publish_def)
next
  case (Inr a)
  obtain mt vu cap sf dw where a: "a = (mt, vu, cap, sf, dw)" by (cases a) auto
  show ?thesis
  proof (cases "mt \<in> set [''REELS'', ''VIDEO'', ''STORIES''] \<and> startswith vu ''https://''")
    case False
    with Inr a assms show ?thesis by (auto simp: publish_def)
  next
    case True
    then have v: "mt \<in> set [''REELS'', ''VIDEO'', ''STORIES'']" "startswith vu ''https://''" by auto
    have "publish up payload tk w \<noteq> Some (Inl (HTTPException 400 InvalidMediaType), w')"
      unfolding publish_valid[OF assms Inr[unfolded a] v]
      by (auto split: prod.splits sum.splits option.splits if_splits
          dest: create_container_error publish_container_error wait_container_error)
    with Inr a v show ?thesis by auto
  qed
qed

text \<open>
  Claim C10. In \<^verbatim>\<open>/publish\<close>, a media type that is missing, null or empty (any false
  value) is read as \<^verbatim>\<open>REELS\<close>; a non-empty string is uppercased and then trimmed, so
  \<^verbatim>\<open>video\<close> is read as \<^verbatim>\<open>VIDEO\<close>. With an authorized session, the request fails with
  the 400 error of an invalid media type exactly when the five values of the payload are
  read and the media type so normalised is none of \<^verbatim>\<open>REELS\<close>, \<^verbatim>\<open>VIDEO\<close>,
  \<^verbatim>\<open>STORIES\<close>; it then makes no upstream call.
\<close>

theorem publish_media_type_normalised:
  "(\<not> truthy (dict_get payload ''media_type'' JNull) \<longrightarrow> media_type_of payload = Inr ''REELS'') \<and>
   (\<forall>s. dict_get payload ''media_type'' JNull = JStr s \<and> s \<noteq> [] \<longrightarrow>
      media_type_of payload = Inr (strip (upper s))) \<and>
   strip (upper ''video'') = ''VIDEO'' \<and>
   (\<forall>mt vu cap sf dw. publish_args payload = Inr (mt, vu, cap, sf, dw) \<longrightarrow>
      media_type_of payload = Inr mt) \<and>
   (truthy (page_access_token tk) \<and> truthy (ig_user_id tk) \<longrightarrow>
      (publish up payload tk w = Some (Inl (HTTPException 400 InvalidMediaType), w') \<longleftrightarrow>
         (w' = w \<and> (\<exists>mt vu cap sf dw. publish_args payload = Inr (mt, vu, cap, sf, dw) \<and>
            mt \<notin> set [''REELS'', ''VIDEO'', ''STORIES'']))))"
proof (intro conjI allI impI)
  assume "\<not> truthy (dict_get payload ''media_type'' JNull)"
  then show "media_type_of payload = Inr ''REELS''"
    by (simp add: media_type_of_def py_or_def string_eval)
next
  fix s assume "dict_get payload ''media_type'' JNull = JStr s \<and> s \<noteq> []"
  then show "media_type_of payload = Inr (strip (upper s))"
    by (simp add: media_type_of_def py_or_def)
next
  show "strip (upper ''video'') = ''VIDEO''" by (simp add: string_eval)
next
  fix mt vu cap sf dw assume "publish_args payload = Inr (mt, vu, cap, sf, dw)"
  then show "media_type_of payload = Inr mt" by (rule publish_args_media_type)
next
  assume "truthy (page_access_token tk) \<and> truthy (ig_user_id tk)"
  then show "publish up payload tk w = Some (Inl (HTTPException 400 InvalidMediaType), w') \<longleftrightarrow>
         (w' = w \<and> (\<exists>mt vu cap sf dw. publish_args payload = Inr (mt, vu, cap, sf, dw) \<and>
            mt \<notin> set [''REELS'', ''VIDEO'', ''STORIES'']))"
    by (intro publish_invalid_media_type_iff) auto
qed

theorem publish_media_type_normalised_witness:
  "media_type_of [(''media_type'', JNull)] = Inr ''REELS'' \<and>
   media_type_of payload_lower_video = Inr ''VIDEO'' \<and>
   publish up_down payload_lower_video tokens_ok w0 \<noteq> Some (Inl (HTTPException 400 InvalidMediaType), w0) \<and>
   publish up_down payload_unknown_type tokens_ok w0 = Some (Inl (HTTPException 400 InvalidMediaType), w0)"
  using publish_media_type_normalised [of "[(''media_type'', JNull)]" tokens_ok up_down w0 w0]
    publish_media_type_normalised [of payload_lower_video tokens_ok up_down w0 w0]
    publish_media_type_normalised [of payload_unknown_type tokens_ok up_down w0 w0]
  by (auto simp: payload_lower_video_def payload_unknown_type_def tokens_ok_def payload_eval
      string_eval)

text \<open>
  Claim C5, at a request the service can receive: an authorized session, a JSON payload
  whose \<^verbatim>\<open>video_url\<close> starts with \<^verbatim>\<open>http://\<close> and whose \<^verbatim>\<open>media_type\<close> is the
  number 5. Line 292 calls \<^verbatim>\<open>.upper()\<close> on the number, the \<^verbatim>\<open>AttributeError\<close> is not
  caught, and the client gets status 500 instead of the 400 of a validation error. No
  upstream call is made.
\<close>

theorem publish_non_string_media_type:
  "truthy (page_access_token tokens_ok) \<and> truthy (ig_user_id tokens_ok) \<and>
   dict_get payload_bad_type ''video_url'' JNull = JStr ''http://x/v.mp4'' \<and>
   startswith (strip ''http://x/v.mp4'') ''https://'' = False \<and>
   publish up_down payload_bad_type tokens_ok w0 = Some (Inl (Unhandled AttributeError), w0) \<and>
   http_status (Inl (Unhandled AttributeError)) = 500"
  by (simp add: payload_bad_type_def tokens_ok_def publish_def payload_eval string_eval)

theorem publish_non_string_media_type_witness:
  "http_status (fst (the (publish up_down payload_bad_type tokens_ok w0))) = 500 \<and>
   new_calls w0 (snd (the (publish up_down payload_bad_type tokens_ok w0))) = []"
  using publish_non_string_media_type by (simp add: new_calls_def)

text \<open>
  What holds of the check on \<^verbatim>\<open>video_url\<close>: when the five values of the payload are
  read without an exception, a URL that does not start with \<^verbatim>\<open>https://\<close> is refused
  with a 400 error before any upstream call.
\<close>

lemma publish_rejects_non_https:
  assumes "truthy (page_access_token tk)" "truthy (ig_user_id tk)"
    and "publish_args payload = Inr (mt, vu, cap, sf, dw)"
    and "\<not> startswith vu ''https://''"
  shows "\<exists>d. publish up payload tk w = Some (Inl (HTTPException 400 d), w)"
  using assms by (auto simp: publish_def)

section \<open>Account resolution\<close>

lemma dict_get_Nil: "dict_get [] k d = d"
  by (simp add: dict_get_def)

lemma ig_of_shaped:
  "page_shaped p \<Longrightarrow> \<exists>ig. ig_of p = Inr ig \<and> (truthy ig \<and> (\<exists>t. py_get p ''access_token'' = Inr t \<and> truthy t) \<longleftrightarrow> qualifies p)"
  by (cases p)
     (auto simp: ig_of_def py_get_def py_or_def dict_get_Nil split: json.splits)

lemma access_token_shaped: "page_shaped p \<Longrightarrow> \<exists>t. py_get p ''access_token'' = Inr t"
  by (cases p) (auto simp: py_get_def)

lemma pick_loop_skip:
  assumes "page_shaped q" "\<not> qualifies q"
  shows "pick_loop (q # ps) = pick_loop ps"
proof -
  obtain ig where ig: "ig_of q = Inr ig"
    and iff: "truthy ig \<and> (\<exists>t. py_get q ''access_token'' = Inr t \<and> truthy t) \<longleftrightarrow> qualifies q"
    using ig_of_shaped[OF assms(1)] by blast
  obtain t where t: "py_get q ''access_token'' = Inr t"
    using access_token_shaped[OF assms(1)] by blast
  show ?thesis
  proof (cases "truthy ig")
    case False
    with ig show ?thesis by simp
  next
    case True
    with iff t assms(2) have "\<not> truthy t" by simp
    with ig t True show ?thesis by simp
  qed
qed

lemma pick_loop_take:
  assumes "qualifies p"
  shows "pick_loop (p # ps) = Inr p"
proof -
  from assms obtain kvs where p: "p = JObj kvs" by (cases p) auto
  with assms show ?thesis
    by (auto simp: ig_of_def py_get_def py_or_def split: json.splits)
qed

lemma pick_loop_first:
  "\<forall>q \<in> set pre. page_shaped q \<and> \<not> qualifies q \<Longrightarrow> qualifies p \<Longrightarrow>
     pick_loop (pre @ p # post) = Inr p"
  by (induction pre) (simp_all add: pick_loop_take pick_loop_skip del: pick_loop.simps)

lemma pick_loop_none:
  "\<forall>q \<in> set ps. page_shaped q \<and> \<not> qualifies q \<Longrightarrow>
     pick_loop ps = Inl (HTTPException 400 NoValidPage)"
proof (induction ps)
  case Nil
  show ?case by simp
next
  case (Cons q ps)
  then have "pick_loop (q # ps) = pick_loop ps" by (intro pick_loop_skip) auto
  with Cons show ?case by simp
qed

lemma get_pages_and_ig_list:
  assumes "up (length (calls w)) = Reply sc parsed txt t" "sc < 400"
    and "py_get_default (reply_json parsed txt) ''data'' (JArr []) = Inr (JArr pages)"
  shows "fst (get_pages_and_ig up ut w) =
     (if pages = [] then Inl (HTTPException 400 NoPages) else Inr (JArr pages))"
  using assms by (simp add: get_pages_and_ig_def req_def Let_def)

text \<open>
  Claim C3. When the accounts query answers with a list of pages: an empty list makes
  \<^verbatim>\<open>_get_pages_and_ig\<close> fail with a 400 error, and a non-empty one is handed on as it is.
  On such a list, \<^verbatim>\<open>_pick_first_valid_page\<close> returns the first page, in the order of the
  list, whose linked account id and access token are both non-empty, passing over the
  pages before it that lack one of them; when every page lacks one, it fails with a 400
  error.
\<close>

theorem account_resolution:
  assumes "up (length (calls w)) = Reply sc parsed txt t" and "sc < 400"
    and "py_get_default (reply_json parsed txt) ''data'' (JArr []) = Inr (JArr pages)"
  shows "(pages = [] \<longrightarrow> fst (get_pages_and_ig up ut w) = Inl (HTTPException 400 NoPages)) \<and>
    (pages \<noteq> [] \<longrightarrow> fst (get_pages_and_ig up ut w) = Inr (JArr pages)) \<and>
    ((\<forall>q \<in> set pages. page_shaped q \<and> \<not> qualifies q) \<longrightarrow>
       pick_first_valid_page (JArr pages) = Inl (HTTPException 400 NoValidPage)) \<and>
    (\<forall>pre p post. pages = pre @ p # post \<and> (\<forall>q \<in> set pre. page_shaped q \<and> \<not> qualifies q) \<and>
       qualifies p \<longrightarrow> pick_first_valid_page (JArr pages) = Inr p)"
proof (intro conjI allI impI)
  have g: "fst (get_pages_and_ig up ut w) =
     (if pages = [] then Inl (HTTPException 400 NoPages) else Inr (JArr pages))"
    using get_pages_and_ig_list[of up w sc parsed "txt" t pages ut] assms by blast
  show "fst (get_pages_and_ig up ut w) = Inl (HTTPException 400 NoPages)" if "pages = []"
    using g that by simp
  show "fst (get_pages_and_ig up ut w) = Inr (JArr pages)" if "pages \<noteq> []"
    using g that by simp
next
  assume "\<forall>q \<in> set pages. page_shaped q \<and> \<not> qualifies q"
  then show "pick_first_valid_page (JArr pages) = Inl (HTTPException 400 NoValidPage)"
    unfolding pick_first_valid_page_def by (simp add: pick_loop_none del: pick_loop.simps)
next
  fix pre p post
  assume a: "pages = pre @ p # post \<and> (\<forall>q \<in> set pre. page_shaped q \<and> \<not> qualifies q) \<and> qualifies p"
  then have "pick_loop (pre @ p # post) = Inr p" by (intro pick_loop_first) auto
  with a show "pick_first_valid_page (JArr pages) = Inr p"
    unfolding pick_first_valid_page_def by simp
qed

theorem account_resolution_witness:
  "fst (get_pages_and_ig (up_const accounts_body) (JStr ''U1'') w0) =
     Inr (JArr [page_without_ig, page1, page_without_ig]) \<and>
   pick_first_valid_page (JArr [page_without_ig, page1, page_without_ig]) = Inr page1"
proof -
  have r: "up_const accounts_body (length (calls w0)) = Reply 200 (Some accounts_body) [] 1"
    by (simp add: up_const_def)
  have d: "py_get_default (reply_json (Some accounts_body) []) ''data'' (JArr []) =
      Inr (JArr [page_without_ig, page1, page_without_ig])"
    by (simp add: reply_json_def accounts_body_def dict_get_def)
  have s: "[page_without_ig, page1, page_without_ig] = [page_without_ig] @ page1 # [page_without_ig]"
    by simp
  have q: "\<forall>q \<in> set [page_without_ig]. page_shaped q \<and> \<not> qualifies q"
    by (simp add: page_without_ig_def dict_get_def)
  have p: "qualifies page1" by (simp add: page1_def dict_get_def)
  have "200 < (400::nat)" by simp
  note a = account_resolution[of "up_const accounts_body" w0 200 "Some accounts_body" "[]" 1
      "[page_without_ig, page1, page_without_ig]" "JStr ''U1''", OF r this d]
  from a have 1: "fst (get_pages_and_ig (up_const accounts_body) (JStr ''U1'') w0) =
     Inr (JArr [page_without_ig, page1, page_without_ig])" by simp
  from a s q p have 2: "pick_first_valid_page (JArr [page_without_ig, page1, page_without_ig]) = Inr page1"
    by blast
  from 1 2 show ?thesis by simp
qed

section \<open>Creating the container\<close>

text \<open>
  Claim C9. \<^verbatim>\<open>_create_container\<close> makes exactly one upstream call, a POST of form data to
  the media edge of the account. The form has a \<^verbatim>\<open>caption\<close> field exactly when the
  caption is not empty, and a \<^verbatim>\<open>share_to_feed\<close> field exactly when the media type is
  \<^verbatim>\<open>REELS\<close>, with the text \<^verbatim>\<open>true\<close> or \<^verbatim>\<open>false\<close> of the flag. When the reply is a
  dictionary without a non-empty \<^verbatim>\<open>id\<close>, the call fails with a 400 error. The flag
  that \<^verbatim>\<open>/publish\<close> passes is true when the payload has no \<^verbatim>\<open>share_to_feed\<close> key.
\<close>

theorem create_container_form:
  "(\<exists>r w1 d. create_container up ig pt mt vu cap sf w = (r, w1) \<and>
      new_calls w w1 = [\<lparr>meth = POST, url = Media ig, params = None, data = Some d\<rparr>] \<and>
      map_of d ''caption'' = (if cap = [] then None else Some (JStr cap)) \<and>
      map_of d ''share_to_feed'' =
        (if mt = ''REELS'' then Some (JStr (if sf then ''true'' else ''false'')) else None) \<and>
      (\<forall>sc parsed body t v. up (length (calls w)) = Reply sc parsed body t \<and> sc < 400 \<and>
         py_get (reply_json parsed body) ''id'' = Inr v \<and> \<not> truthy v \<longrightarrow>
         r = Inl (HTTPException 400 (NoContainerId (reply_json parsed body))))) \<and>
   (\<forall>mt' vu' cap' sf' dw'. publish_args payload = Inr (mt', vu', cap', sf', dw') \<longrightarrow>
      sf' = truthy (dict_get payload ''share_to_feed'' (JBool True)) \<and>
      (map_of payload ''share_to_feed'' = None \<longrightarrow> sf'))"
proof (intro conjI allI impI)
  let ?d = "[(''media_type'', JStr mt), (''video_url'', JStr vu), (''access_token'', pt)]
      @ (if cap \<noteq> [] then [(''caption'', JStr cap)] else [])
      @ (if mt = ''REELS'' then [(''share_to_feed'', JStr (if sf then ''true'' else ''false''))]
         else [])"
  obtain r0 w1 where q: "req up POST (Media ig) None (Some ?d) w = (r0, w1)"
    by (cases "req up POST (Media ig) None (Some ?d) w")
  have "snd (create_container up ig pt mt vu cap sf w) = w1"
    using q by (auto simp: create_container_def Let_def split: sum.splits)
  then obtain r where c: "create_container up ig pt mt vu cap sf w = (r, w1)"
    by (cases "create_container up ig pt mt vu cap sf w") auto
  have n: "new_calls w w1 = [\<lparr>meth = POST, url = Media ig, params = None, data = Some ?d\<rparr>]"
    using req_calls[OF q] by (simp add: new_calls_def)
  have m1: "map_of ?d ''caption'' = (if cap = [] then None else Some (JStr cap))" by simp
  have m2: "map_of ?d ''share_to_feed'' =
        (if mt = ''REELS'' then Some (JStr (if sf then ''true'' else ''false'')) else None)"
    by simp
  have e: "r = Inl (HTTPException 400 (NoContainerId (reply_json parsed body)))"
    if "up (length (calls w)) = Reply sc parsed body t \<and> sc < 400 \<and>
         py_get (reply_json parsed body) ''id'' = Inr v \<and> \<not> truthy v" for sc parsed body t v
    using that c by (auto simp: create_container_def req_def Let_def)
  show "\<exists>r w1 d. create_container up ig pt mt vu cap sf w = (r, w1) \<and>
      new_calls w w1 = [\<lparr>meth = POST, url = Media ig, params = None, data = Some d\<rparr>] \<and>
      map_of d ''caption'' = (if cap = [] then None else Some (JStr cap)) \<and>
      map_of d ''share_to_feed'' =
        (if mt = ''REELS'' then Some (JStr (if sf then ''true'' else ''false'')) else None) \<and>
      (\<forall>sc parsed body t v. up (length (calls w)) = Reply sc parsed body t \<and> sc < 400 \<and>
         py_get (reply_json parsed body) ''id'' = Inr v \<and> \<not> truthy v \<longrightarrow>
         r = Inl (HTTPException 400 (NoContainerId (reply_json parsed body))))"
    using c n m1 m2 e by blast
next
  fix mt' vu' cap' sf' dw'
  assume a: "publish_args payload = Inr (mt', vu', cap', sf', dw')"
  then show "sf' = truthy (dict_get payload ''share_to_feed'' (JBool True))"
    by (auto simp: publish_args_def split: sum.splits)
  then show "sf'" if "map_of payload ''share_to_feed'' = None"
    using that by (simp add: dict_get_def)
qed

theorem create_container_form_witness:
  "fst (create_container (up_const (JObj [])) (JStr ''ig1'') (JStr ''P1'') ''REELS''
         ''https://x/v.mp4'' [] True w0) = Inl (HTTPException 400 (NoContainerId (JObj []))) \<and>
   publish_args payload_reel = Inr (''REELS'', ''https://x/v.mp4'', [], True, True)"
proof -
  have r: "up_const (JObj []) (length (calls w0)) = Reply 200 (Some (JObj [])) [] 1"
    by (simp add: up_const_def)
  have g: "py_get (reply_json (Some (JObj [])) []) ''id'' = Inr JNull"
    by (simp add: reply_json_def py_get_def dict_get_def)
  have m: "map_of payload_reel ''share_to_feed'' = None" by (simp add: payload_reel_def)
  obtain sf dw where a: "publish_args payload_reel = Inr (''REELS'', ''https://x/v.mp4'', [], sf, dw)"
    and dw: "dw = truthy (dict_get payload_reel ''wait'' (JBool True))"
    by (simp add: payload_reel_def payload_eval string_eval)
  note t = create_container_form [of "up_const (JObj [])" "JStr ''ig1''" "JStr ''P1''" "''REELS''"
      "''https://x/v.mp4''" "[]" True w0 payload_reel]
  from t r g have 1: "fst (create_container (up_const (JObj [])) (JStr ''ig1'') (JStr ''P1'') ''REELS''
         ''https://x/v.mp4'' [] True w0) = Inl (HTTPException 400 (NoContainerId (JObj [])))"
    by (auto simp: reply_json_def)
  from t m a have "sf" by blast
  moreover from dw have "dw" by (simp add: payload_reel_def dict_get_def)
  ultimately show ?thesis using 1 a by simp
qed

section \<open>The configuration check\<close>

text \<open>
  Claim C7, as stated, at the route \<^verbatim>\<open>/status\<close>: it reports the effective redirect URI and
  the public base URL, so it depends on the configuration, yet with every setting missing
  it answers 200 while the required-environment check fails with 500.
\<close>

theorem status_skips_require_env_counterexample:
  "require_env cfg_empty = Inl (HTTPException 500 (MissingEnv
      [''META_APP_ID'', ''META_APP_SECRET'', ''META_REDIRECT_URI ou PUBLIC_BASE_URL'',
       ''PUBLIC_BASE_URL''])) \<and>
   status cfg_empty TOKENS_init =
     Inr (StatusInfo False False JNull JNull JNull ''instagram_basic'' [] []) \<and>
   http_status (status cfg_empty TOKENS_init) = 200"
  by (simp add: require_env_def missing_env_def get_redirect_uri_def cfg_empty_def status_def
      TOKENS_init_def)

text \<open>
  Claim C7, amended. The effective redirect URI is the override when it is set, else the
  base URL followed by \<^verbatim>\<open>/oauth/callback\<close> when the base URL is set, else the empty
  string. The required-environment check passes exactly when the client id, the client
  secret and the base URL are set (the effective redirect URI is then set too); otherwise
  it fails with a 500 error that names each missing setting. The routes \<^verbatim>\<open>/\<close>,
  \<^verbatim>\<open>/login\<close> and \<^verbatim>\<open>/oauth/callback\<close> make the check first and fail with its error,
  touching neither the session nor the upstream. The routes \<^verbatim>\<open>/health\<close> and
  \<^verbatim>\<open>/status\<close> do not make it and always answer 200, and \<^verbatim>\<open>/publish\<close> behaves the same
  under every configuration.
\<close>

theorem require_env_routes:
  "get_redirect_uri cfg =
     (if META_REDIRECT_URI cfg \<noteq> [] then META_REDIRECT_URI cfg
      else if PUBLIC_BASE_URL cfg \<noteq> [] then PUBLIC_BASE_URL cfg @ ''/oauth/callback''
      else []) \<and>
   (require_env cfg = Inr () \<longleftrightarrow>
      META_APP_ID cfg \<noteq> [] \<and> META_APP_SECRET cfg \<noteq> [] \<and> PUBLIC_BASE_URL cfg \<noteq> []) \<and>
   (require_env cfg \<noteq> Inr () \<longrightarrow>
      (\<exists>missing. require_env cfg = Inl (HTTPException 500 (MissingEnv missing)) \<and>
         (''META_APP_ID'' \<in> set missing \<longleftrightarrow> META_APP_ID cfg = []) \<and>
         (''META_APP_SECRET'' \<in> set missing \<longleftrightarrow> META_APP_SECRET cfg = []) \<and>
         (''META_REDIRECT_URI ou PUBLIC_BASE_URL'' \<in> set missing \<longleftrightarrow> get_redirect_uri cfg = []) \<and>
         (''PUBLIC_BASE_URL'' \<in> set missing \<longleftrightarrow> PUBLIC_BASE_URL cfg = []))) \<and>
   (\<forall>e. require_env cfg = Inl e \<longrightarrow>
      home cfg = Inl e \<and> login cfg = Inl e \<and>
      oauth_callback cfg up code state err error_description tk w = (Inl e, tk, w)) \<and>
   http_status (health tk) = 200 \<and> http_status (status cfg tk) = 200 \<and>
   handle cfg up (Publish payload) tk w = handle cfg' up (Publish payload) tk w"
  by (auto simp: get_redirect_uri_def require_env_def missing_env_def home_def login_def
      oauth_callback_def health_def status_def)

theorem require_env_routes_witness:
  "require_env cfg_no_app_id = Inl (HTTPException 500 (MissingEnv [''META_APP_ID''])) \<and>
   home cfg_no_app_id = Inl (HTTPException 500 (MissingEnv [''META_APP_ID''])) \<and>
   login cfg_no_app_id = Inl (HTTPException 500 (MissingEnv [''META_APP_ID''])) \<and>
   oauth_callback cfg_no_app_id up_down (Some ''abc'') (Some ''nonce'') None None tokens_ok w0 =
     (Inl (HTTPException 500 (MissingEnv [''META_APP_ID''])), tokens_ok, w0)"
proof -
  have r: "require_env cfg_no_app_id = Inl (HTTPException 500 (MissingEnv [''META_APP_ID'']))"
    by (simp add: require_env_def missing_env_def get_redirect_uri_def cfg_no_app_id_def cfg_ok_def)
  from require_env_routes [of cfg_no_app_id up_down "Some ''abc''" "Some ''nonce''" None None
      tokens_ok w0] r
  show ?thesis by simp
qed

section \<open>The callback and the session record\<close>

text \<open>
  Claim C1, as stated, with the client id missing: a callback whose state is not the
  anti-forgery token is answered with 500, not 400.
\<close>

theorem oauth_callback_state_mismatch_counterexample:
  "Some ''forged'' \<noteq> Some (STATE_NONCE cfg_no_app_id) \<and>
   http_status (fst (oauth_callback cfg_no_app_id up_down (Some ''abc'') (Some ''forged'') None None
     TOKENS_init w0)) = 500"
  by (simp add: oauth_callback_def require_env_def missing_env_def cfg_no_app_id_def cfg_ok_def
      get_redirect_uri_def)

text \<open>
  Claim C1, amended. A callback whose state is not the anti-forgery token leaves the
  session record unchanged and makes no upstream call, whether the code is there or not;
  it is answered with status 400 when the required-environment check passes, and with
  the 500 of that check otherwise.
\<close>

theorem oauth_callback_state_mismatch:
  assumes "state \<noteq> Some (STATE_NONCE cfg)"
  shows "\<exists>r. oauth_callback cfg up code state err error_description tk w = (r, tk, w) \<and>
           http_status r = (if require_env cfg = Inr () then 400 else 500)"
  using assms
  by (auto simp: oauth_callback_def require_env_def split: if_splits)

theorem oauth_callback_state_mismatch_witness:
  "\<exists>r. oauth_callback cfg_ok up_down (Some ''abc'') (Some ''forged'') None None tokens_ok w0 =
          (r, tokens_ok, w0) \<and> http_status r = 400"
proof -
  have s: "Some ''forged'' \<noteq> Some (STATE_NONCE cfg_ok)" by (simp add: cfg_ok_def)
  have r: "require_env cfg_ok = Inr ()"
    by (simp add: require_env_def missing_env_def get_redirect_uri_def cfg_ok_def)
  from oauth_callback_state_mismatch [OF s, of up_down "Some ''abc''" None None tokens_ok w0] r
  show ?thesis by simp
qed

lemma pick_loop_Inr:
  "pick_loop ps = Inr p \<Longrightarrow>
     \<exists>ig t. ig_of p = Inr ig \<and> truthy ig \<and> py_get p ''access_token'' = Inr t \<and> truthy t"
proof (induction ps)
  case Nil
  then show ?case by simp
next
  case (Cons q ps)
  show ?case
  proof (cases "pick_loop ps = Inr p")
    case True
    with Cons.IH show ?thesis by blast
  next
    case False
    with Cons.prems show ?thesis
      by (auto split: sum.splits if_splits)
  qed
qed

lemma pick_first_valid_page_Inr:
  "pick_first_valid_page pages = Inr p \<Longrightarrow>
     \<exists>ig t. ig_of p = Inr ig \<and> truthy ig \<and> py_get p ''access_token'' = Inr t \<and> truthy t"
  by (auto simp: pick_first_valid_page_def split: sum.splits dest: pick_loop_Inr)

lemma py_get_id: "py_get p k = Inr v \<Longrightarrow> \<exists>v'. py_get p k' = Inr v'"
  by (cases p) (auto simp: py_get_def)

lemma store_tokens_chosen:
  assumes "ig_of chosen = Inr ig" "py_get chosen ''access_token'' = Inr t"
    and "py_get chosen ''id'' = Inr pid"
  shows "store_tokens ut chosen tk w =
     (Inr (), \<lparr> user_access_token = ut, page_access_token = t, ig_user_id = ig,
        page_id = pid, token_obtained_at = JInt (clock w) \<rparr>)"
  using assms by (cases tk) (simp add: store_tokens_def Let_def)

lemma exchange_truthy:
  "exchange_code_for_user_token cfg up code w = (Inr ut, w1) \<Longrightarrow> truthy ut"
  by (auto simp: exchange_code_for_user_token_def split: prod.splits sum.splits if_splits)

lemma oauth_callback_unguarded:
  assumes "\<not> (require_env cfg = Inr () \<and> \<not> (err \<noteq> None \<and> err \<noteq> Some []) \<and>
     \<not> (code = None \<or> code = Some []) \<and> state = Some (STATE_NONCE cfg))"
  shows "\<exists>r. oauth_callback cfg up code state err error_description tk w = (r, tk, w) \<and>
     (\<forall>pid ig. r \<noteq> Inr (AuthorizedPage pid ig))"
  using assms by (auto simp: oauth_callback_def split: sum.splits)

lemma oauth_callback_guarded:
  assumes "require_env cfg = Inr ()" "\<not> (err \<noteq> None \<and> err \<noteq> Some [])"
    "\<not> (code = None \<or> code = Some [])" "state = Some (STATE_NONCE cfg)"
  shows "oauth_callback cfg up code state err error_description tk w =
    (case exchange_code_for_user_token cfg up (the code) w of
       (Inl e, w1) \<Rightarrow> (Inl e, tk, w1)
     | (Inr user_token, w1) \<Rightarrow>
         (case get_pages_and_ig up user_token w1 of
            (Inl e, w2) \<Rightarrow> (Inl e, tk, w2)
          | (Inr pages, w2) \<Rightarrow>
              (case pick_first_valid_page pages of
                 Inl e \<Rightarrow> (Inl e, tk, w2)
               | Inr chosen \<Rightarrow>
                   (case store_tokens user_token chosen tk w2 of
                      (Inl e, tk') \<Rightarrow> (Inl e, tk', w2)
                    | (Inr u, tk') \<Rightarrow>
                        (Inr (AuthorizedPage (page_id tk') (ig_user_id tk')), tk', w2)))))"
  using assms by (auto simp: oauth_callback_def)

lemma oauth_callback_outcome:
  assumes "oauth_callback cfg up code state err error_description tk w = (r, tk', w')"
  shows "(\<exists>ut pt pid ig. r = Inr (AuthorizedPage pid ig) \<and>
            tk' = \<lparr> user_access_token = ut, page_access_token = pt, ig_user_id = ig,
                    page_id = pid, token_obtained_at = JInt (clock w') \<rparr> \<and>
            truthy ut \<and> truthy pt \<and> truthy ig \<and>
            (\<forall>tk0. oauth_callback cfg up code state err error_description tk0 w = (r, tk', w'))) \<or>
         ((\<forall>pid ig. r \<noteq> Inr (AuthorizedPage pid ig)) \<and> tk' = tk)"
proof (cases "require_env cfg = Inr () \<and> \<not> (err \<noteq> None \<and> err \<noteq> Some []) \<and>
     \<not> (code = None \<or> code = Some []) \<and> state = Some (STATE_NONCE cfg)")
  case False
  from oauth_callback_unguarded[OF this, of up error_description tk w] assms
  show ?thesis by auto
next
  case True
  then have g: "require_env cfg = Inr ()" "\<not> (err \<noteq> None \<and> err \<noteq> Some [])"
    "\<not> (code = None \<or> code = Some [])" "state = Some (STATE_NONCE cfg)" by auto
  note unf = oauth_callback_guarded[OF g]
  obtain r1 w1 where x: "exchange_code_for_user_token cfg up (the code) w = (r1, w1)"
    by (cases "exchange_code_for_user_token cfg up (the code) w")
  show ?thesis
  proof (cases r1)
    case (Inl e)
    with assms x show ?thesis by (auto simp: unf)
  next
    case ut: (Inr ut)
    have tut: "truthy ut" using x ut by (auto dest: exchange_truthy)
    obtain r2 w2 where p: "get_pages_and_ig up ut w1 = (r2, w2)"
      by (cases "get_pages_and_ig up ut w1")
    show ?thesis
    proof (cases r2)
      case (Inl e)
      with assms x ut p show ?thesis by (auto simp: unf)
    next
      case pages: (Inr pages)
      show ?thesis
      proof (cases "pick_first_valid_page pages")
        case (Inl e)
        with assms x ut p pages show ?thesis by (auto simp: unf)
      next
        case chosen: (Inr chosen)
        obtain ig t where c: "ig_of chosen = Inr ig" "truthy ig"
          "py_get chosen ''access_token'' = Inr t" "truthy t"
          using pick_first_valid_page_Inr[OF chosen] by blast
        obtain pid where pid: "py_get chosen ''id'' = Inr pid"
          using py_get_id[OF c(3)] by blast
        let ?tk = "\<lparr> user_access_token = ut, page_access_token = t, ig_user_id = ig,
                    page_id = pid, token_obtained_at = JInt (clock w2) \<rparr>"
        have st: "store_tokens ut chosen tk0 w2 = (Inr (), ?tk)" for tk0
          using c(1) c(3) pid by (rule store_tokens_chosen)
        have run: "oauth_callback cfg up code state err error_description tk0 w =
            (Inr (AuthorizedPage pid ig), ?tk, w2)" for tk0
          by (simp add: oauth_callback_guarded[OF g] x ut p pages chosen st)
        from run[of tk] assms have "r = Inr (AuthorizedPage pid ig)" "tk' = ?tk" "w' = w2"
          by auto
        with run tut c(2) c(4) show ?thesis by blast
      qed
    qed
  qed
qed

lemma handle_invariant:
  assumes "session_invariant tk" "handle cfg up rq tk w = Some (r, tk', w')"
  shows "session_invariant tk'"
proof (cases rq)
  case (OAuthCallback code state err error_description)
  with assms(2) have "oauth_callback cfg up code state err error_description tk w = (r, tk', w')"
    by simp
  from oauth_callback_outcome[OF this] assms(1) show ?thesis
    by (auto simp: session_invariant_def)
next
  case (Publish payload)
  with assms show ?thesis by (auto split: option.splits)
qed (use assms in auto)

lemma reachable_invariant: "reachable cfg up tk w \<Longrightarrow> session_invariant tk"
proof (induction rule: reachable.induct)
  case (start t)
  show ?case by (simp add: session_invariant_def TOKENS_init_def)
next
  case (request tk w rq r tk' w')
  then show ?case by (auto intro: handle_invariant)
next
  case (tick tk w n)
  then show ?case by simp
qed

section \<open>The session invariant\<close>

text \<open>
  Claim C2. A callback that succeeds (it answers with the page of the authorization)
  leaves a session record whose five fields are all the ones of this callback: the user
  token, the token and the id of the chosen page, the id of its publishing account and
  the time. The record does not depend on the one before: started from any other session,
  the same callback leaves the same record. The user token, the page token and the
  account id of that record are non-empty. A callback that does not succeed leaves the
  record as it was. In every state the service can reach, whatever the requests handled,
  the page token and the publishing-account id are both non-empty or both absent.
\<close>

theorem session_replaced_as_a_whole:
  "(\<forall>r tk' w'. oauth_callback cfg up code state err error_description tk w = (r, tk', w') \<longrightarrow>
      (\<exists>ut pt pid ig. r = Inr (AuthorizedPage pid ig) \<and>
          tk' = \<lparr> user_access_token = ut, page_access_token = pt, ig_user_id = ig,
                  page_id = pid, token_obtained_at = JInt (clock w') \<rparr> \<and>
          truthy ut \<and> truthy pt \<and> truthy ig \<and>
          (\<forall>tk0. oauth_callback cfg up code state err error_description tk0 w = (r, tk', w'))) \<or>
      ((\<forall>pid ig. r \<noteq> Inr (AuthorizedPage pid ig)) \<and> tk' = tk)) \<and>
   (\<forall>tk1 w1. reachable cfg up tk1 w1 \<longrightarrow> session_invariant tk1)"
  by (intro conjI allI impI oauth_callback_outcome reachable_invariant)

theorem session_replaced_as_a_whole_witness:
  "oauth_callback cfg_ok up_auth (Some ''abc'') (Some ''nonce'') None None tokens_ok w0 =
     (Inr (AuthorizedPage (JStr ''pg1'') (JStr ''ig1'')),
      \<lparr> user_access_token = JStr ''U1'', page_access_token = JStr ''P1'', ig_user_id = JStr ''ig1'',
        page_id = JStr ''pg1'', token_obtained_at = JInt 2 \<rparr>,
      snd (snd (oauth_callback cfg_ok up_auth (Some ''abc'') (Some ''nonce'') None None TOKENS_init w0))) \<and>
   session_invariant \<lparr> user_access_token = JStr ''U1'', page_access_token = JStr ''P1'',
        ig_user_id = JStr ''ig1'', page_id = JStr ''pg1'', token_obtained_at = JInt 2 \<rparr>"
proof -
  let ?tk = "\<lparr> user_access_token = JStr ''U1'', page_access_token = JStr ''P1'',
        ig_user_id = JStr ''ig1'', page_id = JStr ''pg1'', token_obtained_at = JInt 2 \<rparr>"
  have u0: "up_auth 0 = Reply 200 (Some (JObj [(''access_token'', JStr ''U1'')])) [] 1"
    and u1: "up_auth (Suc 0) = Reply 200 (Some (JObj [(''data'', JArr [page1])])) [] 1"
    by (simp_all add: up_auth_def up_script_def)
  define w1 where "w1 = snd (exchange_code_for_user_token cfg_ok up_auth ''abc'' w0)"
  have x: "exchange_code_for_user_token cfg_ok up_auth ''abc'' w0 = (Inr (JStr ''U1''), w1)"
    and l: "length (calls w1) = Suc 0" and c1: "clock w1 = 1"
    unfolding w1_def
    by (simp_all add: exchange_code_for_user_token_def req_def u0 w0_def
        reply_json_def py_get_def dict_get_def)
  define w2 where "w2 = snd (get_pages_and_ig up_auth (JStr ''U1'') w1)"
  have p: "get_pages_and_ig up_auth (JStr ''U1'') w1 = (Inr (JArr [page1]), w2)"
    and c2: "clock w2 = 2"
    unfolding w2_def
    by (simp_all add: get_pages_and_ig_def req_def l c1 u1 reply_json_def dict_get_def)
  have k: "pick_first_valid_page (JArr [page1]) = Inr page1"
    by (simp add: pick_first_valid_page_def page1_def ig_of_def py_get_def py_or_def dict_get_def)
  have s: "store_tokens (JStr ''U1'') page1 TOKENS_init w = (Inr (),
      \<lparr> user_access_token = JStr ''U1'', page_access_token = JStr ''P1'', ig_user_id = JStr ''ig1'',
        page_id = JStr ''pg1'', token_obtained_at = JInt (clock w) \<rparr>)" for w
    by (simp add: store_tokens_def page1_def ig_of_def py_get_def py_or_def dict_get_def
        TOKENS_init_def)
  have g: "require_env cfg_ok = Inr ()"
    by (simp add: require_env_def missing_env_def get_redirect_uri_def cfg_ok_def)
  have n: "Some ''nonce'' = Some (STATE_NONCE cfg_ok)" by (simp add: cfg_ok_def)
  have run: "oauth_callback cfg_ok up_auth (Some ''abc'') (Some ''nonce'') None None TOKENS_init w0 =
      (Inr (AuthorizedPage (JStr ''pg1'') (JStr ''ig1'')), ?tk, w2)"
    by (simp add: oauth_callback_guarded[OF g _ _ n] x p k s c2)
  note t = session_replaced_as_a_whole [of cfg_ok up_auth "Some ''abc''" "Some ''nonce''" None None
      TOKENS_init w0]
  from t run have 1: "oauth_callback cfg_ok up_auth (Some ''abc'') (Some ''nonce'') None None tokens_ok w0 =
      (Inr (AuthorizedPage (JStr ''pg1'') (JStr ''ig1'')), ?tk, w2)"
    by blast
  have "reachable cfg_ok up_auth TOKENS_init \<lparr>calls = [], clock = 0\<rparr>" by (rule reachable.start)
  then have "reachable cfg_ok up_auth ?tk w2"
    by (rule reachable.request[where rq = "OAuthCallback (Some ''abc'') (Some ''nonce'') None None"])
       (use run in \<open>simp add: w0_def\<close>)
  with t have 2: "session_invariant ?tk" by blast
  from 1 2 run show ?thesis by simp
qed

end
